theory Spec2Isabelle
  imports Main
begin

section \<open>The PostgreSQL manager of manatee (lib/postgresMgr.js)\<close>

text \<open>
  A shallow embedding of the parts of \<^verbatim>\<open>PostgresMgr\<close> that decide how a topology
  command is classified, how the process is stopped, how the replication check
  polls, and how queries are serialised.

  Naming: a JavaScript name with a leading underscore, such as \<^verbatim>\<open>_reconfigure\<close> or
  \<^verbatim>\<open>self._running\<close>, is written with the prefix \<open>u_\<close> (\<open>u_reconfigure\<close>,
  \<open>u_running\<close>), since an Isabelle name cannot start with an underscore.

  Asynchrony: the manager runs on one event loop. A function of the source that
  finishes by calling a callback later is modelled by the synchronous part it
  runs, and by what it hands to the event loop.
\<close>

subsection \<open>Topology commands (the \<^verbatim>\<open>pgConfig\<close> objects)\<close>

text \<open>
  A peer identifier carries \<^verbatim>\<open>pgUrl\<close> and \<^verbatim>\<open>backupUrl\<close>; both are strings here, so
  the two \<^verbatim>\<open>assert.string\<close> checks of \<^verbatim>\<open>assertPeerIdentifier\<close> hold by typing.
  \<^verbatim>\<open>upstream\<close> and \<^verbatim>\<open>downstream\<close> are an object or null: \<open>None\<close> is the falsy
  value.
\<close>

record peer =
  pgUrl :: string
  backupUrl :: string

record pgConfig =
  role :: string
  upstream :: "peer option"
  downstream :: "peer option"

datatype exn = AssertionError | TypeError

text \<open>
  Error values passed to callbacks: \<open>Error msg\<close> is an error object made outside
  this file (by the pg client, the ZFS client, the configuration parser or a
  child process), \<open>VError msg\<close> is \<^verbatim>\<open>new verror.VError(msg)\<close>, \<open>VErrorOf cause msg\<close>
  is \<^verbatim>\<open>new verror.VError(cause, msg)\<close>, and \<open>MultiError es\<close> is
  \<^verbatim>\<open>new verror.MultiError(es)\<close>.
\<close>

datatype err =
    Error string
  | VError string
  | VErrorOf err string
  | MultiError "err list"

subsection \<open>Manager state\<close>

record mgr =
  u_postgres :: bool
    \<comment> \<open>\<^verbatim>\<open>self._postgres\<close>: whether a child process handle is held (non-null)\<close>
  u_oneNodeWriteMode :: bool
  u_pgConfig :: "pgConfig option"
  u_running :: bool
  u_transitioning :: bool
  u_appliedPgConfig :: bool
  u_transitionFunc :: "string option"
    \<comment> \<open>\<^verbatim>\<open>self._transitionFunc\<close>: the registered \<^verbatim>\<open>_waitForStandby\<close> task, known by the
        standby it waits for; \<open>None\<close> is null\<close>

text \<open>
  What \<^verbatim>\<open>_reconfigure\<close> hands over to: one of the two \<^verbatim>\<open>setImmediate\<close> calls, or
  one of the asynchronous transitions, with the arguments it passes.
\<close>

datatype plan =
    Immediate_onReconfigure
  | Immediate_callback
  | Call_start
  | Call_updateStandby string
  | Call_primary "string option"
  | Call_standby string string
  | Call_stop

text \<open>
  What a public entry point has done when it returns: thrown, invoked the
  callback synchronously with an error message, scheduled the callback with no
  error (\<^verbatim>\<open>setImmediate(callback)\<close>), or begun a transition.
\<close>

datatype outcome =
    Throws exn
  | Calls err
  | Defers
  | Begins plan

subsection \<open>\<^verbatim>\<open>_reconfigure\<close>\<close>

text \<open>
  \<^verbatim>\<open>comparePeers(a, b)\<close>: true when both are falsy; otherwise it reads
  \<^verbatim>\<open>a.pgUrl\<close> and \<^verbatim>\<open>b.pgUrl\<close>, which throws when exactly one of them is null.
\<close>

fun comparePeers :: "peer option \<Rightarrow> peer option \<Rightarrow> exn + bool" where
  "comparePeers None None = Inr True"
| "comparePeers (Some a) (Some b) =
     Inr (pgUrl a = pgUrl b \<and> backupUrl a = backupUrl b)"
| "comparePeers a b = Inl TypeError"

text \<open>
  The source's test for "already applied" reads \<^verbatim>\<open>self._pgconfig\<close>, with a
  lower-case c. No statement of the source assigns a property of that name (the
  constructor and every assignment write \<^verbatim>\<open>self._pgConfig\<close>), so the read
  yields \<^verbatim>\<open>undefined\<close>.
\<close>

definition u_pgconfig :: "mgr \<Rightarrow> pgConfig option" where
  "u_pgconfig m = None"

text \<open>
  The condition of lines 909 to 913, with the short-circuit evaluation of
  \<^verbatim>\<open>&&\<close>: a falsy conjunct ends the evaluation before \<^verbatim>\<open>comparePeers\<close> is
  called.
\<close>

definition alreadyApplied :: "mgr \<Rightarrow> pgConfig option \<Rightarrow> exn + bool" where
  "alreadyApplied m pgc =
     (case pgc of
        None \<Rightarrow> Inr False
      | Some c \<Rightarrow>
          (case u_pgconfig m of
             None \<Rightarrow> Inr False
           | Some unused \<Rightarrow>
               (case u_pgConfig m of
                  None \<Rightarrow> Inl TypeError
                | Some cur \<Rightarrow>
                    if role c = role cur then
                      (case comparePeers (upstream c) (upstream cur) of
                         Inl x \<Rightarrow> Inl x
                       | Inr False \<Rightarrow> Inr False
                       | Inr True \<Rightarrow>
                           (case comparePeers (downstream c) (downstream cur) of
                              Inl x \<Rightarrow> Inl x
                            | Inr False \<Rightarrow> Inr False
                            | Inr True \<Rightarrow> Inr (u_appliedPgConfig m)))
                    else Inr False)))"

text \<open>
  The condition of lines 923 to 925: a process handle, a current configuration
  and a new one, both of role primary.
\<close>

definition standbyChangeOnly :: "mgr \<Rightarrow> pgConfig option \<Rightarrow> bool" where
  "standbyChangeOnly m pgc =
     (case pgc of
        None \<Rightarrow> False
      | Some c \<Rightarrow>
          (case u_pgConfig m of
             None \<Rightarrow> False
           | Some cur \<Rightarrow>
               u_postgres m \<and> role cur = ''primary'' \<and> role c = ''primary''))"

text \<open>
  The full reconfiguration of lines 931 to 944: a missing \<^verbatim>\<open>pgConfig\<close> is replaced
  by \<^verbatim>\<open>self._pgConfig\<close>; a primary passes its downstream's \<^verbatim>\<open>pgUrl\<close> or null, any
  other role reads \<^verbatim>\<open>pgConfig.upstream.pgUrl\<close>.
\<close>

definition fullReconfigure :: "mgr \<Rightarrow> pgConfig option \<Rightarrow> exn + plan" where
  "fullReconfigure m pgc =
     (case (case pgc of None \<Rightarrow> u_pgConfig m | Some c \<Rightarrow> Some c) of
        None \<Rightarrow> Inl TypeError
      | Some c \<Rightarrow>
          if role c = ''primary'' then
            Inr (Call_primary
              (case downstream c of None \<Rightarrow> None | Some d \<Rightarrow> Some (pgUrl d)))
          else
            (case upstream c of
               None \<Rightarrow> Inl TypeError
             | Some up \<Rightarrow> Inr (Call_standby (pgUrl up) (backupUrl up))))"

definition isRoleNone :: "pgConfig option \<Rightarrow> bool" where
  "isRoleNone pgc = (case pgc of None \<Rightarrow> False | Some c \<Rightarrow> role c = ''none'')"

definition u_reconfigure :: "mgr \<Rightarrow> pgConfig option \<Rightarrow> exn + plan" where
  "u_reconfigure m pgc =
     (if isRoleNone pgc then Inr Immediate_onReconfigure
      else
        (case alreadyApplied m pgc of
           Inl x \<Rightarrow> Inl x
         | Inr True \<Rightarrow>
             if u_postgres m then Inr Immediate_callback else Inr Call_start
         | Inr False \<Rightarrow>
             if standbyChangeOnly m pgc then
               (case pgc of
                  None \<Rightarrow> Inl TypeError
                | Some c \<Rightarrow>
                    (case downstream c of
                       None \<Rightarrow> Inl TypeError
                     | Some d \<Rightarrow> Inr (Call_updateStandby (pgUrl d))))
             else fullReconfigure m pgc))"

text \<open>
  \<^verbatim>\<open>onReconfigure(err)\<close>, the callback \<^verbatim>\<open>_reconfigure\<close> passes on: the new
  configuration is recorded as applied only when there is no error. \<open>pgc\<close> is
  the value of the variable \<^verbatim>\<open>pgConfig\<close> when the callback runs.
\<close>

definition onReconfigure :: "mgr \<Rightarrow> pgConfig option \<Rightarrow> err option \<Rightarrow> mgr" where
  "onReconfigure m pgc err =
     (case err of
        None \<Rightarrow> m\<lparr>u_pgConfig := pgc, u_appliedPgConfig := True\<rparr>
      | Some e \<Rightarrow> m)"

subsection \<open>The public entry points\<close>

text \<open>
  The assertions at the head of \<^verbatim>\<open>reconfigure\<close> (lines 748 to 768), in the
  source's order; \<open>onwm\<close> is \<^verbatim>\<open>self._oneNodeWriteMode\<close>.
\<close>

definition assertPgConfig :: "bool \<Rightarrow> pgConfig \<Rightarrow> bool" where
  "assertPgConfig onwm c =
     (role c \<in> set [''primary'', ''sync'', ''async'', ''none''] \<and>
      (if role c = ''primary''
       then upstream c = None \<and> (if onwm then downstream c = None else True)
       else True) \<and>
      (if role c = ''sync'' \<or> role c = ''async''
       then upstream c \<noteq> None \<and> downstream c = None
       else True) \<and>
      (if role c = ''none''
       then upstream c = None \<and> downstream c = None
       else True))"

definition reconfigure :: "mgr \<Rightarrow> pgConfig \<Rightarrow> mgr \<times> outcome" where
  "reconfigure m c =
     (if \<not> assertPgConfig (u_oneNodeWriteMode m) c then (m, Throws AssertionError)
      else if u_transitioning m then (m, Calls (VError ''already transitioning''))
      else if \<not> u_running m then
        (m\<lparr>u_pgConfig := Some c, u_appliedPgConfig := False\<rparr>, Defers)
      else
        (let m' = m\<lparr>u_transitioning := True\<rparr> in
         case u_reconfigure m' (Some c) of
           Inl x \<Rightarrow> (m', Throws x)
         | Inr p \<Rightarrow> (m', Begins p)))"

definition start :: "mgr \<Rightarrow> mgr \<times> outcome" where
  "start m =
     (if u_transitioning m then (m, Calls (VError ''already transitioning''))
      else if u_running m then (m, Calls (VError ''postgres is already running''))
      else
        (case u_pgConfig m of
           None \<Rightarrow> (m, Calls (VError ''postgres manager hasnt yet been configured''))
         | Some cur \<Rightarrow>
             if role cur = ''none''
             then (m, Calls (VError ''postgres manager role is none, not allowing start''))
             else
               (let m' = m\<lparr>u_transitioning := True\<rparr> in
                case u_reconfigure m' None of
                  Inl x \<Rightarrow> (m', Throws x)
                | Inr p \<Rightarrow> (m', Begins p))))"

definition stop :: "mgr \<Rightarrow> mgr \<times> outcome" where
  "stop m =
     (if u_transitioning m then (m, Calls (VError ''already transitioning''))
      else if \<not> u_running m then (m, Calls (VError ''postgres is not running''))
      else (m\<lparr>u_transitioning := True\<rparr>, Begins Call_stop))"

subsection \<open>\<^verbatim>\<open>_stop\<close>\<close>

text \<open>
  Times are in milliseconds, counted from the call of \<^verbatim>\<open>_stop\<close>. A process is
  described by its answer to each signal: the delay after which it exits once the
  signal is delivered, or \<open>None\<close> when the signal does not end it.
\<close>

datatype signal = SIGINT | SIGQUIT | SIGKILL

type_synonym proc = "signal \<Rightarrow> nat option"

text \<open>
  \<^verbatim>\<open>setTimeout(fn, delay)\<close> as Node.js runs it: a missing delay, one below 1 and
  one above 2147483647 are all replaced by 1.
\<close>

definition timerDelay :: "nat option \<Rightarrow> nat" where
  "timerDelay d =
     (case d of
        None \<Rightarrow> 1
      | Some n \<Rightarrow> if n < 1 \<or> 2147483647 < n then 1 else n)"

text \<open>The time at which the process exits, given the signals sent with their times.\<close>

fun exitTime :: "proc \<Rightarrow> (signal \<times> nat) list \<Rightarrow> nat option" where
  "exitTime p [] = None"
| "exitTime p ((s, t) # rest) =
     (case p s of
        None \<Rightarrow> exitTime p rest
      | Some d \<Rightarrow>
          (case exitTime p rest of
             None \<Rightarrow> Some (t + d)
           | Some e \<Rightarrow> Some (min (t + d) e)))"

text \<open>
  The variable \<^verbatim>\<open>successful\<close> as a timer callback running at time \<open>t\<close> reads it:
  set by the \<^verbatim>\<open>exit\<close> listener when the process has exited before \<open>t\<close>.
\<close>

definition successful :: "proc \<Rightarrow> (signal \<times> nat) list \<Rightarrow> nat \<Rightarrow> bool" where
  "successful p sigs t = (case exitTime p sigs of None \<Rightarrow> False | Some e \<Rightarrow> e < t)"

text \<open>
  A run of \<^verbatim>\<open>_stop\<close>: the signals sent with their times, and the time and argument
  of the one call of \<^verbatim>\<open>callback\<close>.
\<close>

record stopRun =
  sent :: "(signal \<times> nat) list"
  called :: "nat \<times> err option"

text \<open>
  \<open>handle\<close> says whether \<^verbatim>\<open>self._postgres\<close> is non-null. The first two timers are set
  with \<^verbatim>\<open>self._opsTimeout\<close>; the third \<^verbatim>\<open>setTimeout\<close> is called with the function
  only.
\<close>

definition u_stop :: "bool \<Rightarrow> nat \<Rightarrow> proc \<Rightarrow> stopRun" where
  "u_stop handle opsTimeout p =
     (if \<not> handle then \<lparr>sent = [], called = (0, None)\<rparr>
      else
        (let s0 = [(SIGINT, 0)];
             t1 = timerDelay (Some opsTimeout);
             s1 = (if successful p s0 t1 then s0 else s0 @ [(SIGQUIT, t1)]);
             t2 = t1 + timerDelay (Some opsTimeout);
             s2 = (if successful p s1 t2 then s1 else s1 @ [(SIGKILL, t2)]);
             t3 = t2 + timerDelay None
         in case exitTime p s2 of
              None \<Rightarrow> \<lparr>sent = s2, called = (t3, Some (VError ''SIGKILL failed''))\<rparr>
            | Some e \<Rightarrow>
                if e < t3 then \<lparr>sent = s2, called = (e, None)\<rparr>
                else \<lparr>sent = s2, called = (t3, Some (VError ''SIGKILL failed''))\<rparr>))"

subsection \<open>\<^verbatim>\<open>_checkReplStatus\<close> and \<^verbatim>\<open>_checkRepl\<close>\<close>

text \<open>
  The row of \<^verbatim>\<open>pg_stat_replication\<close> as far as the code reads it. A field that is
  missing, null or the empty string is falsy.
\<close>

record replRow =
  sync_state :: "string option"
  sent_location :: "string option"
  flush_location :: "string option"

definition truthy :: "string option \<Rightarrow> bool" where
  "truthy v = (case v of None \<Rightarrow> False | Some s \<Rightarrow> s \<noteq> [])"

definition str :: "string option \<Rightarrow> string" where
  "str v = (case v of None \<Rightarrow> [] | Some s \<Rightarrow> s)"

text \<open>
  \<^verbatim>\<open>mod_lsn.xlogValidate\<close> and \<^verbatim>\<open>mod_lsn.xlogCompare\<close> belong to the package pg-lsn,
  not to this repository: they are the parameters \<open>xlogValidate\<close> (the error it
  returns, if any) and \<open>xlogCompare\<close>.
\<close>

definition lsnValidationErrors :: "(string \<Rightarrow> err option) \<Rightarrow> replRow \<Rightarrow> err list" where
  "lsnValidationErrors xlogValidate row =
     (case xlogValidate (str (sent_location row)) of
        None \<Rightarrow> []
      | Some v \<Rightarrow> [VErrorOf v ''sent_location is invalid'']) @
     (case xlogValidate (str (flush_location row)) of
        None \<Rightarrow> []
      | Some v \<Rightarrow> [VErrorOf v ''flush_location is invalid''])"

text \<open>
  The callback of \<^verbatim>\<open>_checkReplStatus\<close> receives \<^verbatim>\<open>(err)\<close>, or
  \<^verbatim>\<open>(null, _stop, replayLoc)\<close> with \<^verbatim>\<open>_stop\<close> true or null. \<open>qres\<close> is what
  \<^verbatim>\<open>_queryDb\<close> reports: an error, or the first row if there is one.
\<close>

definition u_checkReplStatus ::
  "(string \<Rightarrow> err option) \<Rightarrow> (string \<Rightarrow> string \<Rightarrow> int) \<Rightarrow> err + replRow option
     \<Rightarrow> err + (bool \<times> string)" where
  "u_checkReplStatus xlogValidate xlogCompare qres =
     (case qres of
        Inl e \<Rightarrow> Inl (VErrorOf e ''unable to query replication stat'')
      | Inr None \<Rightarrow> Inl (VError ''no replication status'')
      | Inr (Some row) \<Rightarrow>
          if \<not> (truthy (sync_state row) \<and> truthy (sent_location row) \<and>
                 truthy (flush_location row))
          then Inl (VError ''no replication status'')
          else if lsnValidationErrors xlogValidate row \<noteq> []
          then Inl (VErrorOf (MultiError (lsnValidationErrors xlogValidate row))
                      ''failed to validate LSNs returned by postgres'')
          else if xlogCompare (str (sent_location row)) (str (flush_location row)) = 0
          then Inr (True, str (flush_location row))
          else Inr (False, str (flush_location row)))"

text \<open>
  The variables of one \<^verbatim>\<open>_checkRepl\<close> call. \<open>timeoutId\<close> holds the due time of the
  timer that is pending, and \<open>None\<close> once it has fired or was cleared. \<open>emitted\<close>
  lists the events emitted on \<^verbatim>\<open>checkReplEmitter\<close>, by name and argument; \<open>polls\<close>
  counts the calls of \<^verbatim>\<open>_checkReplStatus\<close>.
\<close>

record replCheck =
  cancel :: bool
  replReplayLoc :: "string option"
  replStartTime :: int
  timeoutId :: "int option"
  emitted :: "(string \<times> err option) list"
  polls :: nat

definition checkReplication :: "replCheck \<Rightarrow> replCheck" where
  "checkReplication r = r\<lparr>polls := Suc (polls r)\<rparr>"

definition u_checkRepl :: "int \<Rightarrow> replCheck" where
  "u_checkRepl now =
     checkReplication
       \<lparr>cancel = False, replReplayLoc = None, replStartTime = now, timeoutId = None,
        emitted = [], polls = 0\<rparr>"

definition checkReplEmitter_cancel :: "replCheck \<Rightarrow> replCheck" where
  "checkReplEmitter_cancel r =
     r\<lparr>cancel := True, timeoutId := None, emitted := emitted r @ [(''done'', None)]\<rparr>"

text \<open>
  The callback that \<^verbatim>\<open>checkReplication\<close> passes to \<^verbatim>\<open>_checkReplStatus\<close>, run at time
  \<open>now\<close> (every \<^verbatim>\<open>Date.now()\<close> of one run gives the same value).
\<close>

definition onReplStatus ::
  "(string \<Rightarrow> string \<Rightarrow> int) \<Rightarrow> int \<Rightarrow> int \<Rightarrow> err + (bool \<times> string) \<Rightarrow> replCheck
     \<Rightarrow> replCheck" where
  "onReplStatus xlogCompare replicationTimeout now res r =
     (if cancel r then r
      else
        (case res of
           Inl e \<Rightarrow> r\<lparr>replStartTime := now, timeoutId := Some (now + 1000)\<rparr>
         | Inr (stp, replayLoc) \<Rightarrow>
             (let r1 = (if \<not> truthy (replReplayLoc r) \<or>
                           0 < xlogCompare replayLoc (str (replReplayLoc r))
                        then r\<lparr>replStartTime := now, replReplayLoc := Some replayLoc\<rparr>
                        else r);
                  diffTime = now - replStartTime r1
              in if stp then r1\<lparr>emitted := emitted r1 @ [(''done'', None)]\<rparr>
                 else if replicationTimeout < diffTime
                 then r1\<lparr>emitted := emitted r1 @
                        [(''error'', Some (VError ''standby unable to make forward progress''))]\<rparr>
                 else r1\<lparr>timeoutId := Some (now + 1000)\<rparr>)))"

text \<open>
  What can happen to a running check: its pending timer fires (and calls
  \<^verbatim>\<open>checkReplication\<close>), a status query returns at some time, or \<^verbatim>\<open>cancel()\<close> is
  called.
\<close>

datatype replEvent =
    TimerFires
  | QueryReturns int "err + replRow option"
  | CancelCalled

definition replStep ::
  "(string \<Rightarrow> err option) \<Rightarrow> (string \<Rightarrow> string \<Rightarrow> int) \<Rightarrow> int \<Rightarrow> replCheck \<Rightarrow> replEvent
     \<Rightarrow> replCheck" where
  "replStep xlogValidate xlogCompare replicationTimeout r ev =
     (case ev of
        TimerFires \<Rightarrow>
          (case timeoutId r of
             None \<Rightarrow> r
           | Some due \<Rightarrow> checkReplication (r\<lparr>timeoutId := None\<rparr>))
      | QueryReturns now qres \<Rightarrow>
          onReplStatus xlogCompare replicationTimeout now
            (u_checkReplStatus xlogValidate xlogCompare qres) r
      | CancelCalled \<Rightarrow> checkReplEmitter_cancel r)"


subsection \<open>Sequential pipelines (\<^verbatim>\<open>vasync.pipeline\<close>)\<close>

text \<open>
  \<^verbatim>\<open>vasync.pipeline\<close> runs its functions in order on a shared argument; the
  first one that passes an error to its callback ends the pipeline, and the final
  callback receives that error. A step here maps the shared context to the new
  context and the error it passes on (\<open>None\<close> for \<^verbatim>\<open>cb()\<close>), or throws.
\<close>

type_synonym 'c step = "'c \<Rightarrow> exn + ('c \<times> err option)"

fun pipeline :: "'c step list \<Rightarrow> 'c \<Rightarrow> exn + ('c \<times> err option)" where
  "pipeline [] c = Inr (c, None)"
| "pipeline (f # fs) c =
     (case f c of
        Inl x \<Rightarrow> Inl x
      | Inr (c', Some e) \<Rightarrow> Inr (c', Some e)
      | Inr (c', None) \<Rightarrow> pipeline fs c')"

text \<open>
  The calls a transition makes on the process, the configuration files and the
  ZFS client, in the order made.
\<close>

datatype action =
    CancelTransition
  | StopPostgres
  | AssertDataset
  | ResolveVersionedPaths
  | UpdateRecoveryConf string
  | UpdatePgConf "(string \<times> string) list"
  | Restart
  | ZfsRestore string
  | Chown
  | RestoreDataset "string option"
  | ZfsDestroy string
  | Sighup
  | WaitForStandby string
  | LogWarn string

text \<open>
  The collaborators are outside this file. Each place that calls one and looks
  at the error it reports is a \<open>site\<close>; an environment gives the error reported
  at each site (\<open>None\<close> for success). \<open>At_enableWrites\<close> is the configuration write
  of a \<^verbatim>\<open>_waitForStandby\<close> task; the other sites are those of \<^verbatim>\<open>_standby\<close> and
  \<^verbatim>\<open>_updateStandby\<close>.
\<close>

datatype site =
    At_enableWrites
  | At_stop
  | At_assertDataset
  | At_resolve
  | At_updateRecoveryConf
  | At_updatePgConf
  | At_restart
  | At_zfsRestore
  | At_chown
  | At_restoreDataset
  | At_resolveAgain
  | At_updateRecoveryConfAgain
  | At_updatePgConfAgain
  | At_restartAgain
  | At_restoreDatasetAgain
  | At_destroy

type_synonym env = "site \<Rightarrow> err option"

subsection \<open>\<^verbatim>\<open>_waitForStandby\<close>\<close>

text \<open>
  \<^verbatim>\<open>formatStandbyName(name)\<close> is \<^verbatim>\<open>util.format('\'"%s"\'', name)\<close>: the name in double
  quotes inside single quotes.
\<close>

definition formatStandbyName :: "string \<Rightarrow> string" where
  "formatStandbyName name = [CHR 0x27, CHR 0x22] @ name @ [CHR 0x22, CHR 0x27]"


text \<open>
  The pipeline of \<^verbatim>\<open>_waitForStandby\<close>, from the moment its first function is called
  back with \<open>heard\<close>: \<^verbatim>\<open>_enableWrites\<close> writes \<^verbatim>\<open>synchronous_standby_names\<close> for the
  standby, \<^verbatim>\<open>_sighup\<close> signals the process (a throw on a null handle). The context
  is the list of calls made; the result carries the argument with which the final
  callback emits \<^verbatim>\<open>done\<close> on the task.
\<close>

definition waitForStandby_checkReplStatus :: "err option \<Rightarrow> action list step" where
  "waitForStandby_checkReplStatus heard c = Inr (c, heard)"

definition waitForStandby_enableWrites :: "env \<Rightarrow> string \<Rightarrow> action list step" where
  "waitForStandby_enableWrites env stdby c =
     Inr (c @ [UpdatePgConf [(''synchronous_standby_names'', formatStandbyName stdby)]],
          env At_enableWrites)"

definition waitForStandby_sighup :: "bool \<Rightarrow> action list step" where
  "waitForStandby_sighup handle c = (if handle then Inr (c @ [Sighup], None) else Inl TypeError)"

definition u_waitForStandby ::
  "bool \<Rightarrow> env \<Rightarrow> string \<Rightarrow> err option \<Rightarrow> exn + (action list \<times> err option)" where
  "u_waitForStandby handle env stdby heard =
     pipeline
       [waitForStandby_checkReplStatus heard,
        waitForStandby_enableWrites env stdby,
        waitForStandby_sighup handle]
       []"


text \<open>
  The step \<^verbatim>\<open>_cancelTransitioning\<close>, the same in \<^verbatim>\<open>_standby\<close>, \<^verbatim>\<open>_updateStandby\<close> and
  \<^verbatim>\<open>_primary\<close>: with a task registered, it registers the pipeline callback for the
  task's \<^verbatim>\<open>done\<close> and calls the task's \<^verbatim>\<open>cancel\<close>. The check, once cancelled, emits
  \<^verbatim>\<open>done\<close> with no argument, so the task's pipeline is called back with no error
  and runs to its end; its \<^verbatim>\<open>done\<close> first resets \<^verbatim>\<open>self._transitionFunc\<close> to null
  (the listener registered when the task was made) and then calls the step's
  callback with the task's error. The result gives the calls made and the error
  passed on. It describes a task whose check has been started: before that,
  \<^verbatim>\<open>cancel\<close> re-arms itself every second until it has (\<open>replEmitter_cancel\<close>);
  and a task whose check had already caught up has its configuration write
  under way when \<^verbatim>\<open>cancel\<close> is called.
\<close>

definition cancelTransitioning ::
  "bool \<Rightarrow> env \<Rightarrow> string \<Rightarrow> exn + (action list \<times> err option)" where
  "cancelTransitioning handle env stdby =
     (case u_waitForStandby handle env stdby None of
        Inl x \<Rightarrow> Inl x
      | Inr (acts, e) \<Rightarrow> Inr (CancelTransition # acts, e))"

subsection \<open>\<^verbatim>\<open>_standby\<close>\<close>

text \<open>
  The shared pipeline argument with its \<^verbatim>\<open>isRestore\<close> field, the variable
  \<^verbatim>\<open>backupSnapshot\<close> of the enclosing function, the value of
  \<^verbatim>\<open>self._transitionFunc\<close>, and the calls made so far.
\<close>

record sctx =
  isRestore :: "err option"
  backupSnapshot :: "string option"
  transitionFunc :: "string option"
  trace :: "action list"

definition act :: "action \<Rightarrow> sctx \<Rightarrow> sctx" where
  "act a c = c\<lparr>trace := trace c @ [a]\<rparr>"

text \<open>
  \<^verbatim>\<open>updateConfigurations(cb)\<close>: resolve the versioned paths (a throw is wrapped and
  passed to \<open>cb\<close>), write \<^verbatim>\<open>primary_conninfo\<close> (formatted from the primary's URL) to
  recovery.conf, then set \<^verbatim>\<open>synchronous_commit\<close> to off in postgresql.conf. The
  three sites are parameters, as the function is called twice.
\<close>

definition updateConfigurations ::
  "env \<Rightarrow> site \<Rightarrow> site \<Rightarrow> site \<Rightarrow> string \<Rightarrow> sctx \<Rightarrow> sctx \<times> err option" where
  "updateConfigurations env sr sc sp primUrl c =
     (let c1 = act ResolveVersionedPaths c in
      case env sr of
        Some e \<Rightarrow>
          (c1, Some (VErrorOf e
             ''failed to resolve versioned paths while trying to update configuration files''))
      | None \<Rightarrow>
          (let c2 = act (UpdateRecoveryConf primUrl) c1 in
           case env sc of
             Some e \<Rightarrow> (c2, Some e)
           | None \<Rightarrow>
               (act (UpdatePgConf [(''synchronous_commit'', ''off'')]) c2, env sp)))"

text \<open>
  \<^verbatim>\<open>restore(cb)\<close>: the ZFS client's callback stores the snapshot it reports in
  \<^verbatim>\<open>backupSnapshot\<close> before looking at the error; on success the data directory
  is chowned.
\<close>

definition restore :: "env \<Rightarrow> string option \<Rightarrow> string \<Rightarrow> sctx \<Rightarrow> sctx \<times> err option" where
  "restore env snapshot bkUrl c =
     (let c1 = act (ZfsRestore bkUrl) c\<lparr>backupSnapshot := snapshot\<rparr> in
      case env At_zfsRestore of
        Some e2 \<Rightarrow> (c1, Some e2)
      | None \<Rightarrow> (act Chown c1, env At_chown))"

definition standby_cancelTransitioning :: "mgr \<Rightarrow> env \<Rightarrow> sctx step" where
  "standby_cancelTransitioning m env c =
     (case transitionFunc c of
        None \<Rightarrow> Inr (c, None)
      | Some task \<Rightarrow>
          (case cancelTransitioning (u_postgres m) env task of
             Inl x \<Rightarrow> Inl x
           | Inr (acts, e) \<Rightarrow>
               Inr (c\<lparr>transitionFunc := None, trace := trace c @ acts\<rparr>, e)))"

definition standby_stopPostgres :: "env \<Rightarrow> sctx step" where
  "standby_stopPostgres env c = Inr (act StopPostgres c, env At_stop)"

definition standby_assertDataset :: "env \<Rightarrow> sctx step" where
  "standby_assertDataset env c = Inr (act AssertDataset c, env At_assertDataset)"

definition standby_updateConfigs :: "env \<Rightarrow> string \<Rightarrow> sctx step" where
  "standby_updateConfigs env primUrl c =
     (case updateConfigurations env At_resolve At_updateRecoveryConf At_updatePgConf
             primUrl c of
        (c', e) \<Rightarrow> Inr (c'\<lparr>isRestore := e\<rparr>, None))"

definition standby_restart :: "env \<Rightarrow> sctx step" where
  "standby_restart env c =
     (case isRestore c of
        Some e \<Rightarrow> Inr (c, None)
      | None \<Rightarrow> Inr ((act Restart c)\<lparr>isRestore := env At_restart\<rparr>, None))"

text \<open>
  \<^verbatim>\<open>_restore\<close>: when the restore fails, \<^verbatim>\<open>restoreDataset\<close> is called with a callback
  that takes no argument and passes on the restore's error \<open>e\<close>, whatever the
  rollback reports.
\<close>

definition standby_restore :: "env \<Rightarrow> string option \<Rightarrow> string \<Rightarrow> sctx step" where
  "standby_restore env snapshot bkUrl c =
     (case isRestore c of
        None \<Rightarrow> Inr (c, None)
      | Some r \<Rightarrow>
          (case restore env snapshot bkUrl (act (LogWarn
                  ''PostgresMgr._standby: failed to move into standby state, performing restore'') c) of
             (c', Some e) \<Rightarrow>
               (let c'' = act (RestoreDataset (backupSnapshot c')) c' in
                case env At_restoreDataset of
                  None \<Rightarrow> Inr (c'', Some e)
                | Some rollbackErr \<Rightarrow> Inr (c'', Some e))
           | (c', None) \<Rightarrow> Inr (c', None)))"

definition standby_updateConfigsAgain :: "env \<Rightarrow> string \<Rightarrow> sctx step" where
  "standby_updateConfigsAgain env primUrl c =
     (case isRestore c of
        None \<Rightarrow> Inr (c, None)
      | Some r \<Rightarrow>
          Inr (updateConfigurations env At_resolveAgain At_updateRecoveryConfAgain
                 At_updatePgConfAgain primUrl c))"

text \<open>
  \<^verbatim>\<open>_restartAgain\<close>: when the restart after a restore fails, the same rollback
  is made, again with a callback that takes no argument.
\<close>

definition standby_restartAgain :: "env \<Rightarrow> sctx step" where
  "standby_restartAgain env c =
     (case isRestore c of
        None \<Rightarrow> Inr (c, None)
      | Some r \<Rightarrow>
          (let c' = act Restart c in
           case env At_restartAgain of
             Some e \<Rightarrow>
               (let c'' = act (RestoreDataset (backupSnapshot c')) c' in
                case env At_restoreDatasetAgain of
                  None \<Rightarrow> Inr (c'', Some e)
                | Some rollbackErr \<Rightarrow> Inr (c'', Some e))
           | None \<Rightarrow> Inr (c', None)))"

text \<open>
  \<^verbatim>\<open>_destroyBackupDatset\<close> reads \<^verbatim>\<open>backupSnapshot.split('@')[0]\<close>, which throws
  when the ZFS client reported no snapshot.
\<close>

definition standby_destroyBackupDatset :: "env \<Rightarrow> sctx step" where
  "standby_destroyBackupDatset env c =
     (case isRestore c of
        None \<Rightarrow> Inr (c, None)
      | Some r \<Rightarrow>
          (case backupSnapshot c of
             None \<Rightarrow> Inl TypeError
           | Some snap \<Rightarrow>
               Inr (act (ZfsDestroy (takeWhile (\<lambda>ch. ch \<noteq> CHR ''@'') snap)) c,
                    env At_destroy)))"

text \<open>
  \<^verbatim>\<open>_standby(primUrl, backupUrl, callback)\<close> (\<open>bkUrl\<close> stands for \<^verbatim>\<open>backupUrl\<close>): \<open>snapshot\<close> is the snapshot name the ZFS
  client reports to the restore's callback. The result is the final context and
  the error that \<^verbatim>\<open>callback\<close> receives.
\<close>

definition u_standby ::
  "mgr \<Rightarrow> env \<Rightarrow> string option \<Rightarrow> string \<Rightarrow> string \<Rightarrow> exn + (sctx \<times> err option)" where
  "u_standby m env snapshot primUrl bkUrl =
     pipeline
       [standby_cancelTransitioning m env,
        standby_stopPostgres env,
        standby_assertDataset env,
        standby_updateConfigs env primUrl,
        standby_restart env,
        standby_restore env snapshot bkUrl,
        standby_updateConfigsAgain env primUrl,
        standby_restartAgain env,
        standby_destroyBackupDatset env]
       \<lparr>isRestore = None, backupSnapshot = None, transitionFunc = u_transitionFunc m,
        trace = []\<rparr>"

subsection \<open>\<^verbatim>\<open>_updateStandby\<close>\<close>

text \<open>
  The context of this pipeline is the manager with the calls made. \<open>stdby\<close> is a
  string; the empty string is falsy.
\<close>

record uctx =
  mg :: mgr
  calls :: "action list"

definition did :: "action \<Rightarrow> uctx \<Rightarrow> uctx" where
  "did a c = c\<lparr>calls := calls c @ [a]\<rparr>"

definition updateStandby_cancelTransitioning :: "env \<Rightarrow> uctx step" where
  "updateStandby_cancelTransitioning env c =
     (case u_transitionFunc (mg c) of
        None \<Rightarrow> Inr (c, None)
      | Some task \<Rightarrow>
          (case cancelTransitioning (u_postgres (mg c)) env task of
             Inl x \<Rightarrow> Inl x
           | Inr (acts, e) \<Rightarrow>
               Inr (c\<lparr>mg := (mg c)\<lparr>u_transitionFunc := None\<rparr>,
                      calls := calls c @ acts\<rparr>, e)))"

definition updateStandby_updateConfigs :: "env \<Rightarrow> string \<Rightarrow> uctx step" where
  "updateStandby_updateConfigs env stdby c =
     (if stdby \<noteq> [] then
        Inr (did (UpdatePgConf
               [(''synchronous_standby_names'', formatStandbyName stdby),
                (''default_transaction_read_only'', ''on'')]) c,
             env At_updatePgConf)
      else if \<not> u_oneNodeWriteMode (mg c) then
        Inr (did (UpdatePgConf [(''default_transaction_read_only'', ''on'')]) c,
             env At_updatePgConf)
      else
        Inr (did (UpdatePgConf [])
               (did (LogWarn
                  ''enable write mode with only one node, may cause WAL corruption!'') c),
             env At_updatePgConf))"

text \<open>\<^verbatim>\<open>_sighup\<close> calls \<^verbatim>\<open>self._postgres.kill('SIGHUP')\<close>, which throws on a null handle.\<close>

definition updateStandby_sighup :: "uctx step" where
  "updateStandby_sighup c =
     (if u_postgres (mg c) then Inr (did Sighup c, None) else Inl TypeError)"

definition updateStandby_startReplCheck :: "string \<Rightarrow> uctx step" where
  "updateStandby_startReplCheck stdby c =
     (if stdby = [] then Inr (c, None)
      else Inr ((did (WaitForStandby stdby) c)
                  \<lparr>mg := (mg c)\<lparr>u_transitionFunc := Some stdby\<rparr>\<rparr>, None))"

definition u_updateStandby :: "mgr \<Rightarrow> env \<Rightarrow> string \<Rightarrow> exn + (uctx \<times> err option)" where
  "u_updateStandby m env stdby =
     pipeline
       [updateStandby_cancelTransitioning env,
        updateStandby_updateConfigs env stdby,
        updateStandby_sighup,
        updateStandby_startReplCheck stdby]
       \<lparr>mg = m, calls = []\<rparr>"

subsection \<open>The query queue: \<^verbatim>\<open>_queryDb\<close>, \<^verbatim>\<open>_pgQueryKick\<close>, \<^verbatim>\<open>_pgQueryFini\<close>\<close>

text \<open>
  A callback given to \<^verbatim>\<open>_queryDb\<close> is known by a name and by the requests it
  submits, through \<^verbatim>\<open>_queryDb\<close>, while it runs (the comment in \<^verbatim>\<open>_pgQueryFini\<close>
  expects that "the callee enqueues another request").
\<close>

datatype cb = Cb (cbName: nat) (cbSubmits: "(string \<times> cb) list")

text \<open>
  A request object \<^verbatim>\<open>{ queryStr, callback }\<close>. The source compares requests by
  identity (\<^verbatim>\<open>rq == self._pgRequestOutstanding\<close>); \<open>rqId\<close> is that identity, the
  number of request objects made before this one.
\<close>

record request =
  rqId :: nat
  queryStr :: string
  callback :: cb

type_synonym row = string

text \<open>
  The three properties of the manager that the queue uses, with counters for the
  client and request objects made so far. The last three fields are not in the
  source; they record what has happened: every request pushed by \<^verbatim>\<open>_queryDb\<close>,
  every call of \<^verbatim>\<open>self._pgClient.query\<close> (with the client it went to), and every
  call of a request's \<^verbatim>\<open>callback\<close> with its two arguments.
\<close>

record pgq =
  u_pgClient :: "nat option"
  u_pgRequestOutstanding :: "request option"
  u_pgRequestsQueued :: "request list"
  clients :: nat
  requests :: nat
  submitted :: "request list"
  dispatched :: "(request \<times> nat) list"
  completed :: "(request \<times> err option \<times> row option) list"

definition pgq0 :: pgq where
  "pgq0 =
     \<lparr>u_pgClient = None, u_pgRequestOutstanding = None, u_pgRequestsQueued = [],
      clients = 0, requests = 0, submitted = [], dispatched = [], completed = []\<rparr>"

text \<open>
  \<^verbatim>\<open>_pgQueryKick\<close>: nothing when a request is outstanding or none is queued;
  otherwise the head of the queue becomes the outstanding request, a client is
  made if there is none, and the query is sent to the client.
\<close>

definition u_pgQueryKick :: "pgq \<Rightarrow> pgq" where
  "u_pgQueryKick q =
     (case u_pgRequestOutstanding q of
        Some out \<Rightarrow> q
      | None \<Rightarrow>
          (case u_pgRequestsQueued q of
             [] \<Rightarrow> q
           | rq # rest \<Rightarrow>
               (let q1 = q\<lparr>u_pgRequestsQueued := rest, u_pgRequestOutstanding := Some rq\<rparr>
                in case u_pgClient q1 of
                     Some c \<Rightarrow> q1\<lparr>dispatched := dispatched q1 @ [(rq, c)]\<rparr>
                   | None \<Rightarrow>
                       q1\<lparr>u_pgClient := Some (clients q1),
                          clients := Suc (clients q1),
                          dispatched := dispatched q1 @ [(rq, clients q1)]\<rparr>)))"

text \<open>\<^verbatim>\<open>_queryDb\<close>: push a new request object on the queue and kick the queue.\<close>

definition u_queryDb :: "pgq \<Rightarrow> string \<Rightarrow> cb \<Rightarrow> pgq" where
  "u_queryDb q qs k =
     (let rq = \<lparr>rqId = requests q, queryStr = qs, callback = k\<rparr>
      in u_pgQueryKick
           (q\<lparr>u_pgRequestsQueued := u_pgRequestsQueued q @ [rq],
              requests := Suc (requests q),
              submitted := submitted q @ [rq]\<rparr>))"

text \<open>
  \<^verbatim>\<open>rq.callback(err, result)\<close>. The function stored in the request is
  \<^verbatim>\<open>once(callback)\<close>: the call is recorded, and the callback given to \<^verbatim>\<open>_queryDb\<close>
  runs (and submits its requests) only at the first call for this request.
\<close>

definition rq_callback :: "request \<Rightarrow> err option \<Rightarrow> row option \<Rightarrow> pgq \<Rightarrow> pgq" where
  "rq_callback rq e res q =
     (let q1 = q\<lparr>completed := completed q @ [(rq, e, res)]\<rparr>
      in if rqId rq \<in> set (map (\<lambda>x. rqId (fst x)) (completed q)) then q1
         else foldl (\<lambda>q' (qs, k). u_queryDb q' qs k) q1 (cbSubmits (callback rq)))"

text \<open>
  \<^verbatim>\<open>_pgQueryFini(err, result)\<close>: asserts that a request is outstanding, clears
  it, on error wraps the error and drops the client, calls the request's callback
  and kicks the queue.
\<close>

definition u_pgQueryFini :: "pgq \<Rightarrow> err option \<Rightarrow> row option \<Rightarrow> exn + pgq" where
  "u_pgQueryFini q e res =
     (case u_pgRequestOutstanding q of
        None \<Rightarrow> Inl AssertionError
      | Some rq \<Rightarrow>
          (let q1 = q\<lparr>u_pgRequestOutstanding := None\<rparr>
           in case e of
                Some x \<Rightarrow>
                  Inr (u_pgQueryKick
                        (rq_callback rq
                           (Some (VErrorOf x ''error whilst querying postgres'')) None
                           (q1\<lparr>u_pgClient := None\<rparr>)))
              | None \<Rightarrow> Inr (u_pgQueryKick (rq_callback rq None res q1))))"

text \<open>
  The listeners that \<^verbatim>\<open>_pgQueryKick\<close> registers. A query's listeners know their
  request \<open>rq\<close> (by identity, \<open>i\<close>). The \<^verbatim>\<open>end\<close> listener is given the first row
  that the query produced, if any: the \<^verbatim>\<open>row\<close> listener has stored it in
  \<^verbatim>\<open>result\<close>. The registration itself (\<^verbatim>\<open>once\<close>, \<^verbatim>\<open>removeAllListeners\<close>) is not
  modelled: a listener can run here whenever its event is delivered, which is
  at least as often as in Node.js.
\<close>

definition isOutstanding :: "pgq \<Rightarrow> nat \<Rightarrow> bool" where
  "isOutstanding q i =
     (case u_pgRequestOutstanding q of None \<Rightarrow> False | Some out \<Rightarrow> rqId out = i)"

definition onQueryError :: "pgq \<Rightarrow> nat \<Rightarrow> err \<Rightarrow> exn + pgq" where
  "onQueryError q i e = (if isOutstanding q i then u_pgQueryFini q (Some e) None else Inr q)"

definition onQueryEnd :: "pgq \<Rightarrow> nat \<Rightarrow> row option \<Rightarrow> exn + pgq" where
  "onQueryEnd q i res =
     (if isOutstanding q i then u_pgQueryFini q None res else Inl AssertionError)"

text \<open>
  The client's \<^verbatim>\<open>error\<close> listener starts with
  \<^verbatim>\<open>self._pgClient.removeAllListeners()\<close>, which throws when the client has
  been dropped already.
\<close>

definition onClientError :: "pgq \<Rightarrow> err \<Rightarrow> exn + pgq" where
  "onClientError q e =
     (case u_pgClient q of
        None \<Rightarrow> Inl TypeError
      | Some c \<Rightarrow>
          (case u_pgRequestOutstanding q of
             Some out \<Rightarrow> u_pgQueryFini q (Some e) None
           | None \<Rightarrow> Inr (q\<lparr>u_pgClient := None\<rparr>)))"

datatype pgEvent =
    Submit string cb
  | QueryEnd nat "row option"
  | QueryError nat err
  | ClientError err

definition pgStep :: "pgq \<Rightarrow> pgEvent \<Rightarrow> exn + pgq" where
  "pgStep q ev =
     (case ev of
        Submit qs k \<Rightarrow> Inr (u_queryDb q qs k)
      | QueryEnd i res \<Rightarrow> onQueryEnd q i res
      | QueryError i e \<Rightarrow> onQueryError q i e
      | ClientError e \<Rightarrow> onClientError q e)"

text \<open>A run stops at the first exception, as the uncaught exception stops the process.\<close>

fun pgRun :: "pgq \<Rightarrow> pgEvent list \<Rightarrow> exn + pgq" where
  "pgRun q [] = Inr q"
| "pgRun q (ev # evs) =
     (case pgStep q ev of
        Inl x \<Rightarrow> Inl x
      | Inr q' \<Rightarrow> pgRun q' evs)"

subsection \<open>Rollback bookkeeping for \<^verbatim>\<open>_standby\<close>\<close>

text \<open>No rollback (\<^verbatim>\<open>restoreDataset\<close>) has been called so far.\<close>

abbreviation noRollback :: "sctx \<Rightarrow> bool" where
  "noRollback c \<equiv> \<forall>s. RestoreDataset s \<notin> set (trace c)"

text \<open>
  The error that makes \<^verbatim>\<open>_standby\<close> roll back: the error of \<^verbatim>\<open>restore\<close> (from the
  ZFS receive, or from the chown after it), or else the error of the restart that
  follows a restore.
\<close>

definition trigger :: "env \<Rightarrow> err option" where
  "trigger env =
     (case env At_zfsRestore of
        Some e \<Rightarrow> Some e
      | None \<Rightarrow>
          (case env At_chown of
             Some e \<Rightarrow> Some e
           | None \<Rightarrow> env At_restartAgain))"

subsection \<open>Bookkeeping for the query queue\<close>

text \<open>
  Requests in order: those whose callback was called, then the outstanding one,
  then the queued ones, are the requests submitted, in the order submitted; the
  \<open>n\<close> requests made so far have the identities \<open>0\<close> to \<open>n - 1\<close>.
\<close>

definition optList :: "'a option \<Rightarrow> 'a list" where
  "optList x = (case x of None \<Rightarrow> [] | Some a \<Rightarrow> [a])"

definition winv :: "pgq \<Rightarrow> bool" where
  "winv q \<longleftrightarrow>
     map fst (dispatched q) = map fst (completed q) @ optList (u_pgRequestOutstanding q) \<and>
     submitted q = map fst (dispatched q) @ u_pgRequestsQueued q \<and>
     map rqId (submitted q) = [0..<requests q]"

text \<open>Between two events, a request waits in the queue only while another is outstanding.\<close>

definition qinv :: "pgq \<Rightarrow> bool" where
  "qinv q \<longleftrightarrow> winv q \<and> (u_pgRequestOutstanding q = None \<longrightarrow> u_pgRequestsQueued q = [])"

text \<open>The events of a client that always succeeds: submissions, and queries that end.\<close>

definition isSuccess :: "pgEvent \<Rightarrow> bool" where
  "isSuccess ev =
     (case ev of
        Submit qs k \<Rightarrow> True
      | QueryEnd i res \<Rightarrow> True
      | QueryError i e \<Rightarrow> False
      | ClientError e \<Rightarrow> False)"

definition noErrors :: "pgq \<Rightarrow> bool" where
  "noErrors q = list_all (\<lambda>x. fst (snd x) = None) (completed q)"

subsection \<open>Sample inputs\<close>

definition peerA :: peer where
  "peerA =
     \<lparr>pgUrl = ''tcp://postgres@10.77.77.7:5432/postgres'',
      backupUrl = ''http://10.77.77.7:12345''\<rparr>"

definition syncCfg :: pgConfig where
  "syncCfg = \<lparr>role = ''sync'', upstream = Some peerA, downstream = None\<rparr>"

text \<open>A running manager whose applied topology is \<open>syncCfg\<close>, with a live process.\<close>

definition runningSync :: mgr where
  "runningSync =
     \<lparr>u_postgres = True, u_oneNodeWriteMode = False, u_pgConfig = Some syncCfg,
      u_running = True, u_transitioning = False, u_appliedPgConfig = True,
      u_transitionFunc = None\<rparr>"

definition primaryAlone :: pgConfig where
  "primaryAlone = \<lparr>role = ''primary'', upstream = None, downstream = None\<rparr>"

text \<open>
  A running primary in one-node write mode, as \<^verbatim>\<open>start\<close> leaves it after
  \<^verbatim>\<open>reconfigure(primaryAlone)\<close>.
\<close>

definition oneNodePrimary :: mgr where
  "oneNodePrimary =
     \<lparr>u_postgres = True, u_oneNodeWriteMode = True, u_pgConfig = Some primaryAlone,
      u_running = True, u_transitioning = False, u_appliedPgConfig = True,
      u_transitionFunc = None\<rparr>"

text \<open>A primary with an upstream: rejected by the assertions of \<^verbatim>\<open>reconfigure\<close>.\<close>

definition primaryWithUpstream :: pgConfig where
  "primaryWithUpstream = \<lparr>role = ''primary'', upstream = Some peerA, downstream = None\<rparr>"



definition allSucceed :: env where
  "allSucceed = (\<lambda>s. None)"

text \<open>
  The in-place reconfiguration fails, the ZFS receive fails, and the rollback
  fails as well.
\<close>

definition restoreAndRollbackFail :: env where
  "restoreAndRollbackFail =
     (\<lambda>s. None)
       (At_updatePgConf := Some (Error ''unable to write config''),
        At_zfsRestore := Some (Error ''zfs receive failed''),
        At_restoreDataset := Some (Error ''rollback failed''))"

text \<open>A process that ignores SIGINT and SIGQUIT and exits 50 ms after SIGKILL.\<close>

definition slowKill :: proc where
  "slowKill = (\<lambda>s. if s = SIGKILL then Some 50 else None)"

text \<open>
  Stand-ins for the two functions of pg-lsn, which is not part of this
  repository, for use at the sample strings only. The validator accepts a string
  of two groups around one slash, each beginning with a hexadecimal digit in
  either case: it accepts \<open>0/17B7188\<close> and rejects \<open>0/ZZ\<close>, whose second group holds
  no hexadecimal digit at all. The comparator orders positions by the number the
  two groups spell.
\<close>

definition isHex :: "char \<Rightarrow> bool" where
  "isHex ch = (ch \<in> set ''0123456789ABCDEFabcdef'')"

definition startsHex :: "string \<Rightarrow> bool" where
  "startsHex g = (case g of [] \<Rightarrow> False | ch # rest \<Rightarrow> isHex ch)"

definition sampleValidate :: "string \<Rightarrow> err option" where
  "sampleValidate s =
     (let hi = takeWhile (\<lambda>ch. ch \<noteq> CHR ''/'') s; lo = drop (Suc (length hi)) s
      in if length hi < length s \<and> CHR ''/'' \<notin> set lo \<and> startsHex hi \<and> startsHex lo
         then None
         else Some (Error ''invalid LSN''))"

definition hexValue :: "string \<Rightarrow> nat" where
  "hexValue s =
     foldl (\<lambda>n ch. 16 * n + length (takeWhile (\<lambda>d. d \<noteq> ch) ''0123456789ABCDEF'')) 0 s"

definition lsnValue :: "string \<Rightarrow> nat" where
  "lsnValue s =
     (let hi = takeWhile (\<lambda>ch. ch \<noteq> CHR ''/'') s; lo = drop (Suc (length hi)) s
      in hexValue hi * 4294967296 + hexValue lo)"

definition sampleCompare :: "string \<Rightarrow> string \<Rightarrow> int" where
  "sampleCompare a b =
     (if lsnValue a < lsnValue b then - 1 else if lsnValue a = lsnValue b then 0 else 1)"

text \<open>
  A row whose flush location is not a log position (no hexadecimal digit after
  the slash), and a row of a standby that has caught up.
\<close>

definition malformedRow :: replRow where
  "malformedRow =
     \<lparr>sync_state = Some ''sync'', sent_location = Some ''0/17B7188'',
      flush_location = Some ''0/ZZ''\<rparr>"


text \<open>
  Three requests submitted at once, the first of which submits a fourth from its
  callback; the client answers each query in turn.
\<close>

definition sampleRun :: "pgEvent list" where
  "sampleRun =
     [Submit ''select current_time;'' (Cb 1 [(''select current_time;'', Cb 4 [])]),
      Submit ''SELECT pg_current_xlog_location() as loc;'' (Cb 2 []),
      Submit ''select current_time;'' (Cb 3 []),
      QueryEnd 0 (Some ''12:00''),
      QueryEnd 1 (Some ''0/17B7188''),
      QueryEnd 2 None,
      QueryEnd 3 (Some ''12:01'')]"

text \<open>
  One request; the client reports an error, and then the query of that request
  reports an error too.
\<close>

definition doubleErrorRun :: "pgEvent list" where
  "doubleErrorRun =
     [Submit ''select current_time;'' (Cb 1 []),
      ClientError (Error ''connection terminated''),
      QueryError 0 (Error ''connection terminated'')]"

section \<open>Properties\<close>

subsection \<open>Entry points\<close>

text \<open>
  C5, as the code has it. While \<^verbatim>\<open>_transitioning\<close> is true, \<^verbatim>\<open>start\<close> and \<^verbatim>\<open>stop\<close>
  call back at once with the error "already transitioning" and change nothing,
  and so does \<^verbatim>\<open>reconfigure\<close> when its topology passes the assertions; nothing is
  stored or queued.
\<close>

theorem busy_while_transitioning:
  assumes "u_transitioning m"
  shows "start m = (m, Calls (VError ''already transitioning'')) \<and>
         stop m = (m, Calls (VError ''already transitioning'')) \<and>
         (assertPgConfig (u_oneNodeWriteMode m) c \<longrightarrow>
            reconfigure m c = (m, Calls (VError ''already transitioning'')))"
  using assms by (simp add: start_def stop_def reconfigure_def)

theorem busy_while_transitioning_witness:
  "u_transitioning (runningSync\<lparr>u_transitioning := True\<rparr>) \<and>
   assertPgConfig (u_oneNodeWriteMode (runningSync\<lparr>u_transitioning := True\<rparr>)) syncCfg \<and>
   start (runningSync\<lparr>u_transitioning := True\<rparr>) =
     (runningSync\<lparr>u_transitioning := True\<rparr>, Calls (VError ''already transitioning'')) \<and>
   stop (runningSync\<lparr>u_transitioning := True\<rparr>) =
     (runningSync\<lparr>u_transitioning := True\<rparr>, Calls (VError ''already transitioning'')) \<and>
   reconfigure (runningSync\<lparr>u_transitioning := True\<rparr>) syncCfg =
     (runningSync\<lparr>u_transitioning := True\<rparr>, Calls (VError ''already transitioning''))"
proof -
  have t: "u_transitioning (runningSync\<lparr>u_transitioning := True\<rparr>)"
    by simp
  have a: "assertPgConfig (u_oneNodeWriteMode (runningSync\<lparr>u_transitioning := True\<rparr>)) syncCfg"
    by (simp add: assertPgConfig_def syncCfg_def runningSync_def)
  from busy_while_transitioning [OF t, of syncCfg] t a show ?thesis
    by blast
qed

text \<open>
  C5, as stated, fails: a \<^verbatim>\<open>reconfigure\<close> made while transitioning with a topology
  that the assertions reject (here a primary with an upstream) throws the
  assertion error; the callback never receives "already transitioning".
\<close>

theorem busy_reconfigure_counterexample:
  "u_transitioning (runningSync\<lparr>u_transitioning := True\<rparr>) \<and>
   reconfigure (runningSync\<lparr>u_transitioning := True\<rparr>) primaryWithUpstream =
     (runningSync\<lparr>u_transitioning := True\<rparr>, Throws AssertionError)"
  by (simp add: reconfigure_def assertPgConfig_def primaryWithUpstream_def runningSync_def)

text \<open>
  C9. A \<^verbatim>\<open>reconfigure\<close> with a topology that passes the assertions, made while the
  manager is not running: unless the manager is transitioning (then the callback
  gets "already transitioning" and nothing changes), the topology is stored, it is
  marked as not applied, the callback is scheduled with no error, and no
  transition begins.
\<close>

theorem reconfigure_not_running:
  assumes "assertPgConfig (u_oneNodeWriteMode m) c" and "\<not> u_running m"
  shows "reconfigure m c =
           (if u_transitioning m then (m, Calls (VError ''already transitioning''))
            else (m\<lparr>u_pgConfig := Some c, u_appliedPgConfig := False\<rparr>, Defers))"
  using assms by (simp add: reconfigure_def)

theorem reconfigure_not_running_witness:
  "assertPgConfig (u_oneNodeWriteMode (runningSync\<lparr>u_running := False\<rparr>)) primaryAlone \<and>
   \<not> u_running (runningSync\<lparr>u_running := False\<rparr>) \<and>
   reconfigure (runningSync\<lparr>u_running := False\<rparr>) primaryAlone =
     (runningSync\<lparr>u_running := False, u_pgConfig := Some primaryAlone,
        u_appliedPgConfig := False\<rparr>, Defers)"
proof -
  have a: "assertPgConfig (u_oneNodeWriteMode (runningSync\<lparr>u_running := False\<rparr>)) primaryAlone"
    by (simp add: assertPgConfig_def primaryAlone_def runningSync_def)
  have r: "\<not> u_running (runningSync\<lparr>u_running := False\<rparr>)"
    by simp
  from reconfigure_not_running [OF a r] a r show ?thesis
    by (simp add: runningSync_def)
qed

text \<open>
  C1, at a failing input. The manager runs as a standby whose topology \<open>syncCfg\<close>
  was fully applied and whose process is live; \<^verbatim>\<open>reconfigure\<close> is called with the
  same topology. The test for "already applied" is false (it reads
  \<^verbatim>\<open>self._pgconfig\<close>), so the call begins the full standby transition, which,
  when every step succeeds, stops the process, rewrites recovery.conf and
  postgresql.conf and restarts the process.
\<close>

theorem reconfigure_identical_standby:
  "reconfigure runningSync syncCfg =
     (runningSync\<lparr>u_transitioning := True\<rparr>,
      Begins (Call_standby (pgUrl peerA) (backupUrl peerA))) \<and>
   u_standby (runningSync\<lparr>u_transitioning := True\<rparr>) allSucceed None
       (pgUrl peerA) (backupUrl peerA) =
     Inr (\<lparr>isRestore = None, backupSnapshot = None, transitionFunc = None,
           trace = [StopPostgres, AssertDataset, ResolveVersionedPaths,
                    UpdateRecoveryConf (pgUrl peerA),
                    UpdatePgConf [(''synchronous_commit'', ''off'')], Restart]\<rparr>,
          None)"
  by (simp add: reconfigure_def runningSync_def syncCfg_def peerA_def assertPgConfig_def
      u_reconfigure_def isRoleNone_def alreadyApplied_def u_pgconfig_def
      standbyChangeOnly_def fullReconfigure_def u_standby_def allSucceed_def
      standby_cancelTransitioning_def standby_stopPostgres_def standby_assertDataset_def
      standby_updateConfigs_def standby_restart_def standby_restore_def
      standby_updateConfigsAgain_def standby_restartAgain_def
      standby_destroyBackupDatset_def updateConfigurations_def act_def Let_def)

text \<open>
  C8, at a failing input. The manager runs as a primary in one-node write mode
  with a live process, and \<^verbatim>\<open>reconfigure\<close> is called for the role primary with no
  downstream (the only shape the assertions allow in that mode). The call reads
  \<^verbatim>\<open>pgConfig.downstream.pgUrl\<close> of the null downstream and throws, after
  \<^verbatim>\<open>_transitioning\<close> was set: \<^verbatim>\<open>_updateStandby\<close> is never called.
\<close>

theorem reconfigure_primary_without_downstream:
  "assertPgConfig (u_oneNodeWriteMode oneNodePrimary) primaryAlone \<and>
   reconfigure oneNodePrimary primaryAlone =
     (oneNodePrimary\<lparr>u_transitioning := True\<rparr>, Throws TypeError)"
  by (simp add: reconfigure_def oneNodePrimary_def primaryAlone_def assertPgConfig_def
      u_reconfigure_def isRoleNone_def alreadyApplied_def u_pgconfig_def
      standbyChangeOnly_def)

text \<open>
  What the code does for a primary that stays primary when the new topology has a
  downstream: \<^verbatim>\<open>reconfigure\<close> begins \<^verbatim>\<open>_updateStandby\<close> with the downstream's
  \<^verbatim>\<open>pgUrl\<close>. The three lemmas after it give the calls \<^verbatim>\<open>_updateStandby\<close> makes when no
  task is registered and the configuration is written without error.
\<close>

lemma reconfigure_primary_with_downstream:
  assumes "u_running m" and "\<not> u_transitioning m" and "u_postgres m"
    and "u_pgConfig m = Some cur" and "role cur = ''primary''"
    and "role c = ''primary''" and "upstream c = None" and "downstream c = Some d"
    and "\<not> u_oneNodeWriteMode m"
  shows "reconfigure m c =
           (m\<lparr>u_transitioning := True\<rparr>, Begins (Call_updateStandby (pgUrl d)))"
  using assms
  by (simp add: reconfigure_def assertPgConfig_def u_reconfigure_def isRoleNone_def
      alreadyApplied_def u_pgconfig_def standbyChangeOnly_def)

lemma updateStandby_with_standby:
  assumes "stdby \<noteq> []" and "u_transitionFunc m = None" and "u_postgres m"
    and "env At_updatePgConf = None"
  shows "u_updateStandby m env stdby =
           Inr (\<lparr>mg = m\<lparr>u_transitionFunc := Some stdby\<rparr>,
                 calls = [UpdatePgConf
                            [(''synchronous_standby_names'', formatStandbyName stdby),
                             (''default_transaction_read_only'', ''on'')],
                          Sighup, WaitForStandby stdby]\<rparr>, None)"
  using assms
  by (simp add: u_updateStandby_def updateStandby_cancelTransitioning_def
      updateStandby_updateConfigs_def updateStandby_sighup_def
      updateStandby_startReplCheck_def did_def)

lemma updateStandby_without_standby:
  assumes "\<not> u_oneNodeWriteMode m" and "u_transitionFunc m = None" and "u_postgres m"
    and "env At_updatePgConf = None"
  shows "u_updateStandby m env [] =
           Inr (\<lparr>mg = m,
                 calls = [UpdatePgConf [(''default_transaction_read_only'', ''on'')],
                          Sighup]\<rparr>, None)"
  using assms
  by (simp add: u_updateStandby_def updateStandby_cancelTransitioning_def
      updateStandby_updateConfigs_def updateStandby_sighup_def
      updateStandby_startReplCheck_def did_def)

lemma updateStandby_one_node_write_mode:
  assumes "u_oneNodeWriteMode m" and "u_transitionFunc m = None" and "u_postgres m"
    and "env At_updatePgConf = None"
  shows "u_updateStandby m env [] =
           Inr (\<lparr>mg = m,
                 calls = [LogWarn
                            ''enable write mode with only one node, may cause WAL corruption!'',
                          UpdatePgConf [], Sighup]\<rparr>, None)"
  using assms
  by (simp add: u_updateStandby_def updateStandby_cancelTransitioning_def
      updateStandby_updateConfigs_def updateStandby_sighup_def
      updateStandby_startReplCheck_def did_def)

subsection \<open>Stopping the process\<close>

text \<open>
  What \<^verbatim>\<open>_stop\<close> does send on a live process: SIGINT at once, then SIGQUIT and
  SIGKILL, each one timer of \<^verbatim>\<open>opsTimeout\<close> after the signal before it, and each
  only when the process has not exited by then.
\<close>

lemma u_stop_escalation:
  "sent (u_stop True opsTimeout p) = [(SIGINT, 0)] \<or>
   sent (u_stop True opsTimeout p) =
     [(SIGINT, 0), (SIGQUIT, timerDelay (Some opsTimeout))] \<or>
   sent (u_stop True opsTimeout p) =
     [(SIGINT, 0), (SIGQUIT, timerDelay (Some opsTimeout)),
      (SIGKILL, timerDelay (Some opsTimeout) + timerDelay (Some opsTimeout))]"
  by (auto simp: u_stop_def successful_def Let_def split: option.splits)

text \<open>
  C3, at a failing input. With \<^verbatim>\<open>opsTimeout\<close> = 300000 ms, a process that ignores
  SIGINT and SIGQUIT and exits 50 ms after SIGKILL gets the three signals at
  0, 300000 and 600000 ms. The last timer has no delay, so \<^verbatim>\<open>_stop\<close> reports
  "SIGKILL failed" at 600001 ms, although the process exits at 600050 ms, long
  before one more \<^verbatim>\<open>opsTimeout\<close> has passed (900000 ms).
\<close>

theorem stop_fails_right_after_sigkill:
  "u_stop True 300000 slowKill =
     \<lparr>sent = [(SIGINT, 0), (SIGQUIT, 300000), (SIGKILL, 600000)],
      called = (600001, Some (VError ''SIGKILL failed''))\<rparr> \<and>
   exitTime slowKill [(SIGINT, 0), (SIGQUIT, 300000), (SIGKILL, 600000)] = Some 600050"
  by (simp add: u_stop_def slowKill_def successful_def timerDelay_def Let_def)

subsection \<open>The standby transition\<close>

lemma cancelTransitioning_eq:
  "cancelTransitioning handle env stdby =
     (case env At_enableWrites of
        Some e \<Rightarrow>
          Inr ([CancelTransition,
                UpdatePgConf [(''synchronous_standby_names'', formatStandbyName stdby)]],
               Some e)
      | None \<Rightarrow>
          if handle
          then Inr ([CancelTransition,
                     UpdatePgConf [(''synchronous_standby_names'', formatStandbyName stdby)],
                     Sighup], None)
          else Inl TypeError)"
  by (simp add: cancelTransitioning_def u_waitForStandby_def waitForStandby_checkReplStatus_def
      waitForStandby_enableWrites_def waitForStandby_sighup_def split: option.splits)

lemma pipeline_step:
  assumes "pipeline (f # fs) c = Inr (c', r)"
  obtains (continue) c1 where "f c = Inr (c1, None)" "pipeline fs c1 = Inr (c', r)"
        | (stopped) e where "f c = Inr (c', Some e)" "r = Some e"
  using assms by (auto split: sum.splits option.splits prod.splits)

lemma pipeline_safe_step:
  assumes run: "pipeline (f # fs) c = Inr (c', r)"
    and safe: "\<forall>c1 r1. f c = Inr (c1, r1) \<longrightarrow> noRollback c1"
    and rb: "RestoreDataset s \<in> set (trace c')"
  shows "\<exists>c1. f c = Inr (c1, None) \<and> noRollback c1 \<and> pipeline fs c1 = Inr (c', r)"
  using run
proof (cases rule: pipeline_step)
  case (continue c1)
  with safe show ?thesis by blast
next
  case (stopped e)
  with safe rb show ?thesis by blast
qed

lemma updateConfigurations_trace:
  "updateConfigurations env sr sc sp p c = (c', r) \<Longrightarrow> noRollback c \<Longrightarrow>
     noRollback c' \<and> isRestore c' = isRestore c \<and> backupSnapshot c' = backupSnapshot c"
  by (auto simp: updateConfigurations_def act_def Let_def split: option.splits)

lemma cancel_safe: "standby_cancelTransitioning m env c = Inr (c1, r1) \<Longrightarrow> noRollback c \<Longrightarrow> noRollback c1"
  by (auto simp: standby_cancelTransitioning_def cancelTransitioning_eq split: option.splits if_splits)
lemma stop_safe: "standby_stopPostgres env c = Inr (c1, r1) \<Longrightarrow> noRollback c \<Longrightarrow> noRollback c1"
  by (auto simp: standby_stopPostgres_def act_def)
lemma assert_safe: "standby_assertDataset env c = Inr (c1, r1) \<Longrightarrow> noRollback c \<Longrightarrow> noRollback c1"
  by (auto simp: standby_assertDataset_def act_def)
lemma updateConfigs_safe: "standby_updateConfigs env p c = Inr (c1, r1) \<Longrightarrow> noRollback c \<Longrightarrow> noRollback c1"
  by (auto simp: standby_updateConfigs_def split: prod.splits dest!: updateConfigurations_trace)
lemma restart_safe: "standby_restart env c = Inr (c1, r1) \<Longrightarrow> noRollback c \<Longrightarrow> noRollback c1"
  by (auto simp: standby_restart_def act_def split: option.splits)
lemma updateConfigsAgain_safe: "standby_updateConfigsAgain env p c = Inr (c1, r1) \<Longrightarrow> noRollback c \<Longrightarrow> noRollback c1 \<and> isRestore c1 = isRestore c"
  by (auto simp: standby_updateConfigsAgain_def split: option.splits dest!: updateConfigurations_trace)
lemma destroy_safe: "standby_destroyBackupDatset env c = Inr (c1, r1) \<Longrightarrow> noRollback c \<Longrightarrow> noRollback c1"
  by (auto simp: standby_destroyBackupDatset_def act_def split: option.splits)

lemma restore_cases:
  assumes "standby_restore env snap b c = Inr (c1, r1)" "noRollback c"
  shows "(r1 = None \<and> noRollback c1 \<and>
            (isRestore c1 \<noteq> None \<longrightarrow> env At_zfsRestore = None \<and> env At_chown = None))
       \<or> (r1 = (case env At_zfsRestore of Some e \<Rightarrow> Some e | None \<Rightarrow> env At_chown) \<and> r1 \<noteq> None)"
  using assms
  by (auto simp: standby_restore_def restore_def act_def Let_def split: option.splits prod.splits)

lemma restartAgain_cases:
  assumes "standby_restartAgain env c = Inr (c1, r1)" "noRollback c"
  shows "(r1 = None \<and> noRollback c1) \<or> (r1 = env At_restartAgain \<and> r1 \<noteq> None \<and> isRestore c \<noteq> None)"
  using assms
  by (auto simp: standby_restartAgain_def act_def Let_def split: option.splits)

lemma rollback_result:
  assumes run: "u_standby m env snap p b = Inr (c, r)" and rb: "RestoreDataset s \<in> set (trace c)"
  shows "r = trigger env \<and> r \<noteq> None"
proof -
  let ?c0 = "\<lparr>isRestore = None, backupSnapshot = None, transitionFunc = u_transitionFunc m,
      trace = []\<rparr>"
  have n0: "noRollback ?c0" by simp
  have safe_cancel: "\<forall>d e. standby_cancelTransitioning m env ?c0 = Inr (d, e) \<longrightarrow> noRollback d"
    using cancel_safe n0 by blast
  from pipeline_safe_step[OF run[unfolded u_standby_def] safe_cancel rb]
  obtain c1 where n1: "noRollback c1" and
    r1: "pipeline [standby_stopPostgres env, standby_assertDataset env, standby_updateConfigs env p,
        standby_restart env, standby_restore env snap b, standby_updateConfigsAgain env p,
        standby_restartAgain env, standby_destroyBackupDatset env] c1 = Inr (c, r)"
    by blast
  have safe_stop: "\<forall>d e. standby_stopPostgres env c1 = Inr (d, e) \<longrightarrow> noRollback d"
    using stop_safe n1 by blast
  from pipeline_safe_step[OF r1 safe_stop rb]
  obtain c2 where n2: "noRollback c2" and
    r2: "pipeline [standby_assertDataset env, standby_updateConfigs env p,
        standby_restart env, standby_restore env snap b, standby_updateConfigsAgain env p,
        standby_restartAgain env, standby_destroyBackupDatset env] c2 = Inr (c, r)"
    by blast
  have safe_assert: "\<forall>d e. standby_assertDataset env c2 = Inr (d, e) \<longrightarrow> noRollback d"
    using assert_safe n2 by blast
  from pipeline_safe_step[OF r2 safe_assert rb]
  obtain c3 where n3: "noRollback c3" and
    r3: "pipeline [standby_updateConfigs env p,
        standby_restart env, standby_restore env snap b, standby_updateConfigsAgain env p,
        standby_restartAgain env, standby_destroyBackupDatset env] c3 = Inr (c, r)"
    by blast
  have safe_updateConfigs: "\<forall>d e. standby_updateConfigs env p c3 = Inr (d, e) \<longrightarrow> noRollback d"
    using updateConfigs_safe n3 by blast
  from pipeline_safe_step[OF r3 safe_updateConfigs rb]
  obtain c4 where n4: "noRollback c4" and
    r4: "pipeline [standby_restart env, standby_restore env snap b, standby_updateConfigsAgain env p,
        standby_restartAgain env, standby_destroyBackupDatset env] c4 = Inr (c, r)"
    by blast
  have safe_restart: "\<forall>d e. standby_restart env c4 = Inr (d, e) \<longrightarrow> noRollback d"
    using restart_safe n4 by blast
  from pipeline_safe_step[OF r4 safe_restart rb]
  obtain c5 where n5: "noRollback c5" and
    r5: "pipeline [standby_restore env snap b, standby_updateConfigsAgain env p,
        standby_restartAgain env, standby_destroyBackupDatset env] c5 = Inr (c, r)"
    by blast
  from r5 show ?thesis
  proof (cases rule: pipeline_step)
    case (stopped e)
    from restore_cases[OF stopped(1) n5] stopped(2)
    have "r = (case env At_zfsRestore of Some e \<Rightarrow> Some e | None \<Rightarrow> env At_chown)"
      by auto
    with stopped(2) show ?thesis
      by (simp add: trigger_def split: option.splits)
  next
    case (continue c6)
    with restore_cases[OF continue(1) n5]
    have n6: "noRollback c6"
      and z6: "isRestore c6 \<noteq> None \<longrightarrow> env At_zfsRestore = None \<and> env At_chown = None"
      by auto
    from updateConfigsAgain_safe[OF _ n6]
    have safe7: "\<forall>d e. standby_updateConfigsAgain env p c6 = Inr (d, e) \<longrightarrow> noRollback d"
      by blast
    from pipeline_safe_step[OF continue(2) safe7 rb]
    obtain c7 where s7: "standby_updateConfigsAgain env p c6 = Inr (c7, None)" and n7: "noRollback c7" and
      r7: "pipeline [standby_restartAgain env, standby_destroyBackupDatset env] c7 = Inr (c, r)"
      by blast
    from updateConfigsAgain_safe[OF s7 n6] have i7: "isRestore c7 = isRestore c6" by simp
    from r7 show ?thesis
    proof (cases rule: pipeline_step)
      case (stopped e)
      from restartAgain_cases[OF stopped(1) n7] stopped(2)
      have "r = env At_restartAgain" and "isRestore c7 \<noteq> None"
        by auto
      with z6 i7 stopped(2) show ?thesis
        by (simp add: trigger_def)
    next
      case (continue c8)
      with restartAgain_cases[OF continue(1) n7] have n8: "noRollback c8" by auto
      have safe_destroy: "\<forall>d e. standby_destroyBackupDatset env c8 = Inr (d, e) \<longrightarrow> noRollback d"
        using destroy_safe n8 by blast
      from pipeline_safe_step[OF continue(2) safe_destroy rb]
      obtain c9 where n9: "noRollback c9" and r9: "pipeline [] c9 = Inr (c, r)"
        by blast
      with rb show ?thesis by auto
    qed
  qed
qed

lemma env_indep:
  "standby_cancelTransitioning m (env(At_restoreDataset := x, At_restoreDatasetAgain := y)) = standby_cancelTransitioning m env"
  "standby_stopPostgres (env(At_restoreDataset := x, At_restoreDatasetAgain := y)) = standby_stopPostgres env"
  "standby_assertDataset (env(At_restoreDataset := x, At_restoreDatasetAgain := y)) = standby_assertDataset env"
  "standby_updateConfigs (env(At_restoreDataset := x, At_restoreDatasetAgain := y)) p = standby_updateConfigs env p"
  "standby_restart (env(At_restoreDataset := x, At_restoreDatasetAgain := y)) = standby_restart env"
  "standby_restore (env(At_restoreDataset := x, At_restoreDatasetAgain := y)) snap b = standby_restore env snap b"
  "standby_updateConfigsAgain (env(At_restoreDataset := x, At_restoreDatasetAgain := y)) p = standby_updateConfigsAgain env p"
  "standby_restartAgain (env(At_restoreDataset := x, At_restoreDatasetAgain := y)) = standby_restartAgain env"
  "standby_destroyBackupDatset (env(At_restoreDataset := x, At_restoreDatasetAgain := y)) = standby_destroyBackupDatset env"
  by (rule ext; simp add: standby_cancelTransitioning_def standby_stopPostgres_def standby_assertDataset_def
      standby_updateConfigs_def standby_restart_def standby_restore_def standby_updateConfigsAgain_def
      standby_restartAgain_def standby_destroyBackupDatset_def updateConfigurations_def restore_def Let_def
      cancelTransitioning_eq split: option.splits prod.splits)+

lemma u_standby_indep: "u_standby m (env(At_restoreDataset := x, At_restoreDatasetAgain := y)) snap p b = u_standby m env snap p b"
  by (simp only: u_standby_def env_indep)


text \<open>
  C6, as the code has it. Whenever \<^verbatim>\<open>_standby\<close> has attempted a rollback, the
  caller receives the error that triggered it (of the restore, or of the restart
  after the restore) and nothing else: what the rollback itself reports, at
  either place, changes neither the error nor the calls made.
\<close>

theorem standby_rollback_error_discarded:
  assumes "u_standby m env snap p b = Inr (c, r)"
    and "RestoreDataset s \<in> set (trace c)"
  shows "r = trigger env \<and> r \<noteq> None \<and>
         u_standby m (env(At_restoreDataset := x, At_restoreDatasetAgain := y)) snap p b =
           Inr (c, r)"
proof -
  from rollback_result [OF assms] have "r = trigger env" and "r \<noteq> None"
    by blast+
  with assms(1) show ?thesis
    unfolding u_standby_indep by blast
qed

theorem standby_rollback_error_discarded_witness:
  "u_standby runningSync restoreAndRollbackFail (Some ''zones/pg@1'') (pgUrl peerA)
       (backupUrl peerA) =
     Inr (\<lparr>isRestore = Some (Error ''unable to write config''),
           backupSnapshot = Some ''zones/pg@1'', transitionFunc = None,
           trace = [StopPostgres, AssertDataset, ResolveVersionedPaths,
                    UpdateRecoveryConf (pgUrl peerA),
                    UpdatePgConf [(''synchronous_commit'', ''off'')],
                    LogWarn ''PostgresMgr._standby: failed to move into standby state, performing restore'',
                    ZfsRestore (backupUrl peerA),
                    RestoreDataset (Some ''zones/pg@1'')]\<rparr>,
          Some (Error ''zfs receive failed'')) \<and>
   Some (Error ''zfs receive failed'') = trigger restoreAndRollbackFail \<and>
   u_standby runningSync
       (restoreAndRollbackFail(At_restoreDataset := None, At_restoreDatasetAgain := None))
       (Some ''zones/pg@1'') (pgUrl peerA) (backupUrl peerA) =
     u_standby runningSync restoreAndRollbackFail (Some ''zones/pg@1'') (pgUrl peerA)
       (backupUrl peerA)"
proof -
  let ?c = "\<lparr>isRestore = Some (Error ''unable to write config''),
           backupSnapshot = Some ''zones/pg@1'', transitionFunc = None,
           trace = [StopPostgres, AssertDataset, ResolveVersionedPaths,
                    UpdateRecoveryConf (pgUrl peerA),
                    UpdatePgConf [(''synchronous_commit'', ''off'')],
                    LogWarn ''PostgresMgr._standby: failed to move into standby state, performing restore'',
                    ZfsRestore (backupUrl peerA),
                    RestoreDataset (Some ''zones/pg@1'')]\<rparr>"
  have run: "u_standby runningSync restoreAndRollbackFail (Some ''zones/pg@1'') (pgUrl peerA)
       (backupUrl peerA) = Inr (?c, Some (Error ''zfs receive failed''))"
    by (simp add: u_standby_def runningSync_def restoreAndRollbackFail_def
        standby_cancelTransitioning_def standby_stopPostgres_def standby_assertDataset_def
        standby_updateConfigs_def standby_restart_def standby_restore_def
        updateConfigurations_def restore_def act_def Let_def)
  have rb: "RestoreDataset (Some ''zones/pg@1'') \<in> set (trace ?c)"
    by simp
  from standby_rollback_error_discarded [OF run rb, of None None] run show ?thesis
    by simp
qed

text \<open>
  C6, as stated, fails: the restore fails with "zfs receive failed", the rollback
  that follows fails with "rollback failed", and the caller receives the restore's
  error alone; the rollback's error is not in the result.
\<close>

theorem standby_rollback_counterexample:
  "restoreAndRollbackFail At_restoreDataset = Some (Error ''rollback failed'') \<and>
   (case u_standby runningSync restoreAndRollbackFail (Some ''zones/pg@1'') (pgUrl peerA)
           (backupUrl peerA) of
      Inl x \<Rightarrow> None
    | Inr (c, r) \<Rightarrow> r) = Some (Error ''zfs receive failed'')"
  by (simp add: u_standby_def runningSync_def restoreAndRollbackFail_def
      standby_cancelTransitioning_def standby_stopPostgres_def standby_assertDataset_def
      standby_updateConfigs_def standby_restart_def standby_restore_def
      updateConfigurations_def restore_def act_def Let_def)

subsection \<open>The replication check\<close>

text \<open>
  C2, as the code has it. When the status query returns a row with all three
  fields present in which the sent or the flush location fails validation, and
  the check has not been cancelled, the check emits nothing, resets its start
  time and sets the timer for the next poll one second later: the malformed
  position is retried like a failed query.
\<close>

theorem malformed_lsn_is_retried:
  assumes "\<not> cancel r"
    and "truthy (sync_state row)"
    and "truthy (sent_location row)"
    and "truthy (flush_location row)"
    and "xlogValidate (str (sent_location row)) \<noteq> None \<or>
         xlogValidate (str (flush_location row)) \<noteq> None"
  shows "replStep xlogValidate xlogCompare replicationTimeout r
           (QueryReturns now (Inr (Some row))) =
         r\<lparr>replStartTime := now, timeoutId := Some (now + 1000)\<rparr>"
  using assms
  by (auto simp: replStep_def u_checkReplStatus_def lsnValidationErrors_def onReplStatus_def
      split: option.splits)

theorem malformed_lsn_is_retried_witness:
  "\<not> cancel (u_checkRepl 0) \<and>
   truthy (sync_state malformedRow) \<and>
   truthy (sent_location malformedRow) \<and>
   truthy (flush_location malformedRow) \<and>
   sampleValidate (str (flush_location malformedRow)) \<noteq> None \<and>
   replStep sampleValidate sampleCompare 60000 (u_checkRepl 0)
       (QueryReturns 500 (Inr (Some malformedRow))) =
     (u_checkRepl 0)\<lparr>replStartTime := 500, timeoutId := Some (500 + 1000)\<rparr>"
proof -
  have a: "\<not> cancel (u_checkRepl 0)"
    by (simp add: u_checkRepl_def checkReplication_def)
  have b: "truthy (sync_state malformedRow)" "truthy (sent_location malformedRow)"
    "truthy (flush_location malformedRow)"
    by (simp_all add: truthy_def malformedRow_def)
  have c: "sampleValidate (str (flush_location malformedRow)) \<noteq> None"
    by (simp add: sampleValidate_def startsHex_def str_def malformedRow_def isHex_def)
  then have d: "sampleValidate (str (sent_location malformedRow)) \<noteq> None \<or>
      sampleValidate (str (flush_location malformedRow)) \<noteq> None"
    by blast
  from malformed_lsn_is_retried [OF a b d, of sampleCompare 60000 500] a b c
  show ?thesis by blast
qed

text \<open>
  C2, as stated, fails: the check is fed a row whose flush location is malformed;
  it emits no event, and the timer for the next poll is set.
\<close>

theorem malformed_lsn_counterexample:
  "emitted (replStep sampleValidate sampleCompare 60000 (u_checkRepl 0)
             (QueryReturns 500 (Inr (Some malformedRow)))) = [] \<and>
   timeoutId (replStep sampleValidate sampleCompare 60000 (u_checkRepl 0)
             (QueryReturns 500 (Inr (Some malformedRow)))) = Some 1500"
  by (simp add: replStep_def u_checkReplStatus_def malformedRow_def truthy_def str_def
      lsnValidationErrors_def sampleValidate_def startsHex_def isHex_def onReplStatus_def u_checkRepl_def
      checkReplication_def Let_def)













subsection \<open>The query queue\<close>

lemma winvD:
  assumes "winv q"
  shows "map fst (dispatched q) = map fst (completed q) @ optList (u_pgRequestOutstanding q)"
    and "submitted q = map fst (dispatched q) @ u_pgRequestsQueued q"
    and "map rqId (submitted q) = [0..<requests q]"
  using assms unfolding winv_def by blast+

lemma qinv_client: "qinv (q\<lparr>u_pgClient := c\<rparr>) = qinv q"
  by (simp add: qinv_def winv_def)

lemma qinv_pgq0: "qinv pgq0"
  by (simp add: qinv_def winv_def pgq0_def optList_def)

lemma kick_inv: "winv q \<Longrightarrow> qinv (u_pgQueryKick q)"
  by (auto simp: qinv_def winv_def u_pgQueryKick_def optList_def Let_def split: option.splits list.splits)

lemma kick_completed: "completed (u_pgQueryKick q) = completed q"
  by (auto simp: u_pgQueryKick_def Let_def split: option.splits list.splits)

lemma queryDb_inv: "winv q \<Longrightarrow> qinv (u_queryDb q qs k)"
  unfolding u_queryDb_def Let_def
  by (rule kick_inv) (auto simp: winv_def)

lemma queryDb_completed: "completed (u_queryDb q qs k) = completed q"
  by (simp add: u_queryDb_def Let_def kick_completed)

lemma fold_inv: "winv q \<Longrightarrow> winv (foldl (\<lambda>q' (qs, k). u_queryDb q' qs k) q xs)"
proof (induction xs arbitrary: q)
  case Nil
  then show ?case by simp
next
  case (Cons x xs)
  obtain qs k where x: "x = (qs, k)" by (cases x)
  from queryDb_inv [OF Cons.prems] have "winv (u_queryDb q qs k)" by (simp add: qinv_def)
  from Cons.IH [OF this] x show ?case by simp
qed

lemma fold_completed: "completed (foldl (\<lambda>q' (qs, k). u_queryDb q' qs k) q xs) = completed q"
  by (induction xs arbitrary: q) (auto simp: queryDb_completed)

lemma callback_completed: "completed (rq_callback rq e res q) = completed q @ [(rq, e, res)]"
  by (simp add: rq_callback_def Let_def fold_completed)

lemma callback_inv:
  assumes "winv q" and "u_pgRequestOutstanding q = Some rq"
  shows "winv (rq_callback rq e res (q\<lparr>u_pgRequestOutstanding := None, u_pgClient := c\<rparr>))"
proof -
  let ?q1 = "q\<lparr>u_pgRequestOutstanding := None, u_pgClient := c\<rparr>"
  let ?q2 = "?q1\<lparr>completed := completed ?q1 @ [(rq, e, res)]\<rparr>"
  from winvD(1) [OF assms(1)] assms(2)
  have d: "map fst (dispatched q) = map fst (completed q) @ [rq]"
    by (simp add: optList_def)
  note s = winvD(2) [OF assms(1)]
  note i = winvD(3) [OF assms(1)]
  have "map fst (dispatched ?q2) = map fst (completed ?q2) @ optList (u_pgRequestOutstanding ?q2)"
    by (simp add: d optList_def)
  moreover have "submitted ?q2 = map fst (dispatched ?q2) @ u_pgRequestsQueued ?q2"
    by (simp add: s)
  moreover have "map rqId (submitted ?q2) = [0..<requests ?q2]"
    by (simp add: i)
  ultimately have w: "winv ?q2"
    unfolding winv_def by blast
  show ?thesis
    unfolding rq_callback_def Let_def
    using w fold_inv [OF w] by simp
qed

lemma fini_inv:
  assumes "winv q" and "u_pgQueryFini q e res = Inr q'"
  shows "qinv q'"
proof (cases "u_pgRequestOutstanding q")
  case None
  with assms(2) show ?thesis by (simp add: u_pgQueryFini_def)
next
  case (Some rq)
  show ?thesis
  proof (cases e)
    case None
    with Some assms(2)
    have "q' = u_pgQueryKick (rq_callback rq None res (q\<lparr>u_pgRequestOutstanding := None\<rparr>))"
      by (simp add: u_pgQueryFini_def Let_def)
    moreover from callback_inv [OF assms(1) Some, of None res "u_pgClient q"]
    have "winv (rq_callback rq None res (q\<lparr>u_pgRequestOutstanding := None\<rparr>))"
      by simp
    ultimately show ?thesis by (simp add: kick_inv)
  next
    case (Some x)
    with \<open>u_pgRequestOutstanding q = Some rq\<close> assms(2)
    have "q' = u_pgQueryKick (rq_callback rq (Some (VErrorOf x ''error whilst querying postgres'')) None
                (q\<lparr>u_pgRequestOutstanding := None, u_pgClient := None\<rparr>))"
      by (simp add: u_pgQueryFini_def Let_def)
    moreover from callback_inv [OF assms(1) \<open>u_pgRequestOutstanding q = Some rq\<close>]
    have "winv (rq_callback rq (Some (VErrorOf x ''error whilst querying postgres'')) None
                (q\<lparr>u_pgRequestOutstanding := None, u_pgClient := None\<rparr>))" .
    ultimately show ?thesis by (simp add: kick_inv)
  qed
qed


lemma step_inv:
  assumes "qinv q" and "pgStep q ev = Inr q'"
  shows "qinv q'"
proof -
  from assms(1) have w: "winv q" by (simp add: qinv_def)
  show ?thesis
  proof (cases ev)
    case (Submit qs k)
    with assms(2) queryDb_inv [OF w] show ?thesis by (auto simp: pgStep_def)
  next
    case (QueryEnd i res)
    with assms(2) fini_inv [OF w] show ?thesis
      by (auto simp: pgStep_def onQueryEnd_def split: if_splits)
  next
    case (QueryError i e)
    with assms fini_inv [OF w] show ?thesis
      by (auto simp: pgStep_def onQueryError_def split: if_splits)
  next
    case (ClientError e)
    show ?thesis
    proof (cases "u_pgRequestOutstanding q")
      case None
      with ClientError assms(2) obtain c where "q' = q\<lparr>u_pgClient := None\<rparr>"
        by (auto simp: pgStep_def onClientError_def split: option.splits)
      with assms(1) show ?thesis
        by (simp add: qinv_client)
    next
      case (Some out)
      with ClientError assms(2) have "u_pgQueryFini q (Some e) None = Inr q'"
        by (auto simp: pgStep_def onClientError_def split: option.splits)
      from fini_inv [OF w this] show ?thesis .
    qed
  qed
qed

lemma run_inv: "qinv q \<Longrightarrow> pgRun q evs = Inr q' \<Longrightarrow> qinv q'"
proof (induction evs arbitrary: q)
  case Nil
  then show ?case by simp
next
  case (Cons ev evs)
  from Cons.prems(2) obtain q1 where s: "pgStep q ev = Inr q1" and r: "pgRun q1 evs = Inr q'"
    by (auto split: sum.splits)
  from Cons.IH [OF step_inv [OF Cons.prems(1) s] r] show ?case .
qed

lemma fini_noErrors:
  assumes "noErrors q" and "u_pgQueryFini q None res = Inr q'"
  shows "noErrors q'"
  using assms
  by (auto simp: u_pgQueryFini_def noErrors_def kick_completed callback_completed Let_def
      split: option.splits)

lemma step_noErrors:
  assumes "noErrors q" and "isSuccess ev" and "pgStep q ev = Inr q'"
  shows "noErrors q'"
proof (cases ev)
  case (Submit qs k)
  with assms show ?thesis by (auto simp: pgStep_def noErrors_def queryDb_completed)
next
  case (QueryEnd i res)
  with assms(3) have "u_pgQueryFini q None res = Inr q'"
    by (auto simp: pgStep_def onQueryEnd_def split: if_splits)
  from fini_noErrors [OF assms(1) this] show ?thesis .
next
  case (QueryError i e)
  with assms(2) show ?thesis by (simp add: isSuccess_def)
next
  case (ClientError e)
  with assms(2) show ?thesis by (simp add: isSuccess_def)
qed

lemma run_noErrors:
  "noErrors q \<Longrightarrow> list_all isSuccess evs \<Longrightarrow> pgRun q evs = Inr q' \<Longrightarrow> noErrors q'"
proof (induction evs arbitrary: q)
  case Nil
  then show ?case by simp
next
  case (Cons ev evs)
  from Cons.prems(3) obtain q1 where s: "pgStep q ev = Inr q1" and r: "pgRun q1 evs = Inr q'"
    by (auto split: sum.splits)
  from Cons.prems(2) have "isSuccess ev" and "list_all isSuccess evs" by simp_all
  from Cons.IH [OF step_noErrors [OF Cons.prems(1) this(1) s] this(2) r] show ?case .
qed

lemma reachable_inv: "pgRun pgq0 evs = Inr q \<Longrightarrow> qinv q"
  by (rule run_inv [OF qinv_pgq0])

lemma ids_distinct:
  assumes "qinv q"
  shows "distinct (map (\<lambda>x. rqId (fst x)) (completed q) @
                   map rqId (optList (u_pgRequestOutstanding q)) @
                   map rqId (u_pgRequestsQueued q))"
proof -
  from assms have w: "winv q" by (simp add: qinv_def)
  have "map (\<lambda>x. rqId (fst x)) (completed q) @ map rqId (optList (u_pgRequestOutstanding q)) @
          map rqId (u_pgRequestsQueued q) = map rqId (submitted q)"
    unfolding winvD(2) [OF w] winvD(1) [OF w] by (simp add: comp_def)
  also have "\<dots> = [0..<requests q]" by (rule winvD(3) [OF w])
  finally show ?thesis by simp
qed

lemma end_outstanding:
  assumes "u_pgRequestOutstanding q = Some rq"
  shows "\<exists>q'. pgStep q (QueryEnd (rqId rq) res) = Inr q' \<and>
              completed q' = completed q @ [(rq, None, res)]"
  using assms
  by (simp add: pgStep_def onQueryEnd_def isOutstanding_def u_pgQueryFini_def Let_def
      kick_completed callback_completed)

lemma sampleRun_result:
  "\<exists>q. pgRun pgq0 sampleRun = Inr q \<and> u_pgRequestOutstanding q = None \<and>
       map (\<lambda>x. cbName (callback (fst x))) (completed q) = [1, 2, 3, 4]"
  by (simp add: sampleRun_def pgq0_def pgStep_def u_queryDb_def u_pgQueryKick_def onQueryEnd_def
      isOutstanding_def u_pgQueryFini_def rq_callback_def Let_def)

lemma doubleErrorRun_result:
  "\<exists>q. pgRun pgq0 doubleErrorRun = Inr q \<and>
       map (\<lambda>x. rqId (fst x)) (completed q) = [0] \<and>
       map (\<lambda>x. fst (snd x)) (completed q) =
         [Some (VErrorOf (Error ''connection terminated'') ''error whilst querying postgres'')]"
  by (simp add: doubleErrorRun_def pgq0_def pgStep_def u_queryDb_def u_pgQueryKick_def
      onQueryError_def onClientError_def isOutstanding_def u_pgQueryFini_def rq_callback_def
      Let_def)

text \<open>
  C4. After any sequence of submissions, query ends, query errors and client
  errors that the manager survives: the queries sent to the client are at most
  one more than the callbacks called (one query in flight at most); the requests
  sent, followed by those still queued, are the requests submitted, in the order
  submitted, each with its own identity; a query that ends completes the
  outstanding request with no error; and when the client has always succeeded and
  nothing is outstanding, the callbacks called are exactly the requests
  submitted, once each, in the order submitted, all with no error.
\<close>

theorem query_serializer_fifo:
  assumes "pgRun pgq0 evs = Inr q"
  shows "length (completed q) \<le> length (dispatched q) \<and>
         length (dispatched q) \<le> Suc (length (completed q)) \<and>
         map fst (dispatched q) @ u_pgRequestsQueued q = submitted q \<and>
         distinct (map rqId (submitted q)) \<and>
         (list_all isSuccess evs \<and> u_pgRequestOutstanding q = None \<longrightarrow>
            map fst (completed q) = submitted q \<and>
            list_all (\<lambda>x. fst (snd x) = None) (completed q)) \<and>
         (\<forall>rq res. u_pgRequestOutstanding q = Some rq \<longrightarrow>
            (\<exists>q'. pgStep q (QueryEnd (rqId rq) res) = Inr q' \<and>
                  completed q' = completed q @ [(rq, None, res)]))"
proof -
  from reachable_inv [OF assms] have i: "qinv q" .
  then have w: "winv q" by (simp add: qinv_def)
  note d = winvD(1) [OF w] and s = winvD(2) [OF w] and n = winvD(3) [OF w]
  from arg_cong [OF d, of length]
  have l: "length (dispatched q) = length (completed q) + length (optList (u_pgRequestOutstanding q))"
    by simp
  have o: "length (optList (u_pgRequestOutstanding q)) \<le> 1"
    by (simp add: optList_def split: option.splits)
  have a: "length (completed q) \<le> length (dispatched q)" using l by simp
  have b: "length (dispatched q) \<le> Suc (length (completed q))" using l o by simp
  have c: "map fst (dispatched q) @ u_pgRequestsQueued q = submitted q" using s by simp
  have e: "distinct (map rqId (submitted q))" unfolding n by simp
  have f: "map fst (completed q) = submitted q" if "u_pgRequestOutstanding q = None"
  proof -
    from i that have "u_pgRequestsQueued q = []" by (simp add: qinv_def)
    with s d that show ?thesis by (simp add: optList_def)
  qed
  have g: "list_all (\<lambda>x. fst (snd x) = None) (completed q)" if "list_all isSuccess evs"
    using run_noErrors [OF _ that assms] by (simp add: noErrors_def pgq0_def)
  from a b c e f g end_outstanding show ?thesis by blast
qed

theorem query_serializer_fifo_witness:
  "\<exists>q. pgRun pgq0 sampleRun = Inr q \<and>
       list_all isSuccess sampleRun \<and>
       u_pgRequestOutstanding q = None \<and>
       map (\<lambda>x. cbName (callback (fst x))) (completed q) = [1, 2, 3, 4] \<and>
       map fst (completed q) = submitted q \<and>
       list_all (\<lambda>x. fst (snd x) = None) (completed q) \<and>
       length (dispatched q) \<le> Suc (length (completed q))"
proof -
  from sampleRun_result obtain q where
    h: "pgRun pgq0 sampleRun = Inr q \<and> u_pgRequestOutstanding q = None \<and>
        map (\<lambda>x. cbName (callback (fst x))) (completed q) = [1, 2, 3, 4]" ..
  then have r: "pgRun pgq0 sampleRun = Inr q"
    and o: "u_pgRequestOutstanding q = None"
    and n: "map (\<lambda>x. cbName (callback (fst x))) (completed q) = [1, 2, 3, 4]"
    by simp_all
  have s: "list_all isSuccess sampleRun"
    by (simp add: sampleRun_def isSuccess_def)
  note t = query_serializer_fifo [OF r]
  from t have l: "length (dispatched q) \<le> Suc (length (completed q))"
    by (elim conjE)
  from t have "list_all isSuccess sampleRun \<and> u_pgRequestOutstanding q = None \<longrightarrow>
      map fst (completed q) = submitted q \<and>
      list_all (\<lambda>x. fst (snd x) = None) (completed q)"
    by (elim conjE)
  with s o have c: "map fst (completed q) = submitted q"
    and e: "list_all (\<lambda>x. fst (snd x) = None) (completed q)"
    by simp_all
  from r s o n c e l show ?thesis
    by (intro exI [of _ q] conjI)
qed

text \<open>
  C10. After any sequence of events that the manager survives, no request has
  had its callback called twice, and a query \<^verbatim>\<open>error\<close> event for a request whose
  callback was already called (by a client error, say) changes nothing.
\<close>

theorem callback_at_most_once:
  assumes "pgRun pgq0 evs = Inr q"
  shows "distinct (map (\<lambda>x. rqId (fst x)) (completed q)) \<and>
         (\<forall>i e. i \<in> set (map (\<lambda>x. rqId (fst x)) (completed q)) \<longrightarrow>
                 pgStep q (QueryError i e) = Inr q)"
proof -
  from reachable_inv [OF assms] have i: "qinv q" .
  note d = ids_distinct [OF i]
  from d have a: "distinct (map (\<lambda>x. rqId (fst x)) (completed q))" by simp
  have b: "pgStep q (QueryError j e) = Inr q"
    if "j \<in> set (map (\<lambda>x. rqId (fst x)) (completed q))" for j e
  proof -
    from d that have "\<not> isOutstanding q j"
      by (auto simp: isOutstanding_def optList_def split: option.splits)
    then show ?thesis by (simp add: pgStep_def onQueryError_def)
  qed
  from a b show ?thesis by blast
qed

theorem callback_at_most_once_witness:
  "\<exists>q. pgRun pgq0 doubleErrorRun = Inr q \<and>
       map (\<lambda>x. rqId (fst x)) (completed q) = [0] \<and>
       distinct (map (\<lambda>x. rqId (fst x)) (completed q)) \<and>
       pgStep q (QueryError 0 (Error ''connection terminated'')) = Inr q"
proof -
  from doubleErrorRun_result obtain q where
    h: "pgRun pgq0 doubleErrorRun = Inr q \<and>
        map (\<lambda>x. rqId (fst x)) (completed q) = [0] \<and>
        map (\<lambda>x. fst (snd x)) (completed q) =
          [Some (VErrorOf (Error ''connection terminated'') ''error whilst querying postgres'')]" ..
  then have r: "pgRun pgq0 doubleErrorRun = Inr q"
    and c: "map (\<lambda>x. rqId (fst x)) (completed q) = [0]"
    by simp_all
  from c have m: "0 \<in> set (map (\<lambda>x. rqId (fst x)) (completed q))"
    by simp
  note t = callback_at_most_once [OF r]
  from t have d: "distinct (map (\<lambda>x. rqId (fst x)) (completed q))"
    by (elim conjE)
  from t m have i: "pgStep q (QueryError 0 (Error ''connection terminated'')) = Inr q"
    by blast
  from r c d i show ?thesis
    by (intro exI [of _ q] conjI)
qed

end
